theory Spec2Isabelle
  imports Complex_Main "HOL-Library.Word"
begin

unbundle bit_operations_syntax

section \<open>Data model of the bpsense driver\<close>

text \<open>
  The driver \<^verbatim>\<open>src/bpsense.c\<close> consists of one function, \<^verbatim>\<open>main\<close>.  It parses
  options, loads the k-space and the sensitivity maps, checks their shapes, prepares the
  sampling pattern, the scaling and the sparsity operators, creates the output image and
  calls the solver.  Arrays are \<^verbatim>\<open>complex float*\<close> buffers addressed through a
  \<^verbatim>\<open>long dims[N]\<close> shape; a buffer is modelled by the sample it holds at each
  multi-index, a shape by a list of integers.  Samples are exact complex numbers: the
  rounding of single-precision arithmetic is outside this model.
\<close>

type_synonym dims = "int list"
type_synonym carray = "nat list \<Rightarrow> complex"
type_synonym flags = "32 word"

record cfl =
  cfl_dims :: dims
  cfl_data :: carray

type_synonym filesys = "string \<rightharpoonup> cfl"

text \<open>
  Modelled from the spec: the header \<^verbatim>\<open>misc/mri.h\<close> with the axis constants is not part
  of the sources at hand.  The axes are read, phase, slice, coil, map, followed by the
  batch axes; the driver itself compares axes 0 to 3 and prints \<^verbatim>\<open>dims[4]\<close> as the
  number of maps.
\<close>

definition DIMS :: nat where "DIMS = 16"
definition COIL_DIM :: nat where "COIL_DIM = 3"
definition MAPS_DIM :: nat where "MAPS_DIM = 4"
definition COIL_FLAG :: flags where "COIL_FLAG = push_bit COIL_DIM 1"
definition MAPS_FLAG :: flags where "MAPS_FLAG = push_bit MAPS_DIM 1"
definition FFT_FLAGS :: flags where "FFT_FLAGS = 7"

text \<open>The operators are opaque handles; a handle records the constructor call that made it.\<close>

datatype linop_s =
    tv_init nat dims flags
  | linop_identity_create nat dims
  | wavelet_create nat dims flags dims bool bool

datatype operator_p_s =
    prox_thresh_create nat dims real flags bool
  | prox_wavethresh_create nat dims flags dims real bool bool

record iter_admm_conf =
  rho :: real
  maxiter :: int

record bpsense_conf =
  lambda :: real
  eps :: real
  rvc :: bool
  iconf :: iter_admm_conf
  l1op_obj :: "linop_s option"

text \<open>The local variables of \<^verbatim>\<open>main\<close> that the option loop writes.\<close>

record locals =
  conf :: bpsense_conf
  usegpu :: bool
  psf :: "string option"
  image_truth_fname :: string
  im_truth :: bool
  use_tvnorm :: bool

text \<open>The arguments of the call of \<^verbatim>\<open>bpsense_recon\<close>, in the order of the source.\<close>

record recon_call =
  rc_conf :: bpsense_conf
  rc_dims :: dims
  rc_image :: carray
  rc_maps :: carray
  rc_pat_dims :: dims
  rc_pattern :: carray
  rc_l1op :: linop_s
  rc_l1prox :: operator_p_s
  rc_ksp_dims :: dims
  rc_kspace :: carray
  rc_truth :: "carray option"

text \<open>
  The collaborators of the driver that are declared in headers only, and the build flag
  \<^verbatim>\<open>USE_CUDA\<close>, are parameters of the model.  \<open>fresh_mem\<close> is the content of the buffer
  that \<^verbatim>\<open>create_cfl\<close> hands out, before anything is written to it.  \<open>misfit\<close> is
  what a buffer allocated for one shape holds, read with that shape, after an array of
  another shape that fits into it has been written to its start; this depends on the
  layout of arrays in memory and on what fresh memory holds, which are outside this
  model.  The last three fields are the building blocks of the solver: applying an analysis
  operator, applying a proximal operator with a step size, and the constrained inner
  solve of the x-update.
\<close>

record extern =
  USE_CUDA :: bool
  atof :: "string \<Rightarrow> real"
  atoi :: "string \<Rightarrow> int"
  bpsense_defaults :: bpsense_conf
  iter_admm_defaults :: iter_admm_conf
  fftmod :: "nat \<Rightarrow> dims \<Rightarrow> flags \<Rightarrow> carray \<Rightarrow> carray"
  estimate_scaling :: "dims \<Rightarrow> carray \<Rightarrow> real"
  linop_codomain :: "linop_s \<Rightarrow> dims"
  fresh_mem :: carray
  misfit :: "dims \<Rightarrow> dims \<Rightarrow> carray \<Rightarrow> carray"
  linop_apply :: "linop_s \<Rightarrow> carray \<Rightarrow> carray"
  prox_apply :: "operator_p_s \<Rightarrow> real \<Rightarrow> carray \<Rightarrow> carray"
  x_update :: "recon_call \<Rightarrow> carray \<Rightarrow> carray \<Rightarrow> carray"

text \<open>
  What a run does beyond computing: the calls it makes, in order, and how it ends.
  \<open>Aborted\<close> is a failed \<^verbatim>\<open>assert\<close> (the source does not define \<^verbatim>\<open>NDEBUG\<close>),
  \<open>Io_error\<close> a file that cannot be mapped, \<open>Config_error\<close> the fatal error of a
  solver that refuses the shapes it is given.  \<open>Undefined_behaviour\<close> is a write past
  the end of a buffer: from there on C says nothing about the run, and the outcome
  records the state just before the write.
\<close>

datatype event =
    E_usage bool
  | E_help
  | E_load_cfl string
  | E_fprintf_stderr string
  | E_assert_failed string
  | E_num_init bool
  | E_debug_printf string
  | E_md_alloc dims
  | E_estimate_pattern
  | E_fftmod
  | E_estimate_scaling
  | E_md_zsmul
  | E_create_cfl string dims
  | E_md_clear
  | E_bpsense_recon bool
  | E_cleanup

datatype status = Exited int | Aborted | Io_error | Config_error | Undefined_behaviour

record outcome =
  oc_term :: status
  oc_trace :: "event list"
  oc_fs :: filesys
  oc_conf :: bpsense_conf
  oc_recon :: "recon_call option"

definition is_failure :: "status \<Rightarrow> bool" where
  "is_failure t = (t \<noteq> Exited 0)"

definition stop :: "status \<Rightarrow> event list \<Rightarrow> filesys \<Rightarrow> bpsense_conf \<Rightarrow> outcome" where
  "stop t tr fs c = \<lparr>oc_term = t, oc_trace = tr, oc_fs = fs, oc_conf = c, oc_recon = None\<rparr>"

section \<open>Array helpers\<close>

text \<open>
  Modelled from the spec: \<^verbatim>\<open>load_cfl\<close> (misc/mmio) is not part of the sources.  An input
  array must have the canonical number of dimensions; a file that is missing or has
  another rank cannot be mapped, which is fatal.  The mapping is private: writing to a
  loaded buffer does not change the file.
\<close>

definition load_cfl :: "filesys \<Rightarrow> string \<Rightarrow> nat \<Rightarrow> cfl option" where
  "load_cfl fs name N =
     (case fs name of
        None \<Rightarrow> None
      | Some a \<Rightarrow> if length (cfl_dims a) = N then Some a else None)"

text \<open>
  Modelled from the spec: \<^verbatim>\<open>md_select_dims\<close> (num/multind) is not part of the sources.
  A flag set selects axes: a selected axis keeps its size, every other axis is reduced
  to one.
\<close>

definition md_select_dims :: "nat \<Rightarrow> flags \<Rightarrow> dims \<Rightarrow> dims" where
  "md_select_dims D flgs idims = map (\<lambda>i. if bit flgs i then idims ! i else 1) [0..<D]"

text \<open>
  Modelled from the spec: \<^verbatim>\<open>md_calc_size\<close> (num/multind) is not part of the sources.
  It is the number of samples of an array of the given shape.
\<close>

definition md_calc_size :: "nat \<Rightarrow> dims \<Rightarrow> int" where
  "md_calc_size D dms = prod_list (take D dms)"

text \<open>
  Modelled from the spec: \<^verbatim>\<open>md_clear\<close> (num/multind) is not part of the sources.
  It sets every sample of the buffer to zero.
\<close>

definition md_clear :: "nat \<Rightarrow> dims \<Rightarrow> carray \<Rightarrow> carray" where
  "md_clear D dms buf = (\<lambda>idx. 0)"

text \<open>
  Modelled from the spec: \<^verbatim>\<open>md_zsmul\<close> (num/flpmath) is not part of the sources.
  It multiplies every sample by a scalar.
\<close>

definition md_zsmul :: "nat \<Rightarrow> dims \<Rightarrow> carray \<Rightarrow> complex \<Rightarrow> carray" where
  "md_zsmul D dms src val = (\<lambda>idx. src idx * val)"

text \<open>
  Modelled from the spec: \<^verbatim>\<open>estimate_pattern\<close> (sense/optcom) is not part of the
  sources.  The pattern has the coil axis collapsed; an element is 1 if any coil has a
  nonzero sample at that location and 0 otherwise.  The k-space is only read.  The
  estimator is given the shape of the k-space and no shape for the buffer it writes to:
  it writes as many samples as the k-space shape with the coil axis collapsed has.
\<close>

definition estimate_pattern :: "nat \<Rightarrow> dims \<Rightarrow> nat \<Rightarrow> carray \<Rightarrow> carray" where
  "estimate_pattern D dms cdim kspace_data =
     (\<lambda>idx. if list_ex (\<lambda>c. kspace_data (idx[cdim := c]) \<noteq> 0) [0..<nat (dms ! cdim)]
            then 1 else 0)"

section \<open>The solver\<close>

text \<open>
  Modelled from the spec: \<^verbatim>\<open>bpsense_recon\<close> (sense/bprecon) is not part of the sources.
  The solver keeps an image estimate, an auxiliary variable and a scaled dual variable.
  It starts from the image it is given, with the auxiliary variable the transform of the
  image and the dual variable zero, and repeats the x-update (projected onto real images
  under the real-value constraint), the z-update and the dual update \<open>maxiter\<close> times.
  The ground truth serves the diagnostics only and is hidden from the updates.  Shapes
  that do not fit the operators are a fatal error raised before the loop starts.
\<close>

record admm_vars =
  av_x :: carray
  av_z :: carray
  av_u :: carray

text \<open>
  Modelled from the spec: the initial state of the solver, \<open>x\<close> the given image,
  \<open>z = T x\<close> and \<open>u = 0\<close>.
\<close>

definition admm_init :: "extern \<Rightarrow> recon_call \<Rightarrow> admm_vars" where
  "admm_init ext c =
     \<lparr>av_x = rc_image c, av_z = linop_apply ext (rc_l1op c) (rc_image c), av_u = (\<lambda>idx. 0)\<rparr>"

text \<open>
  Modelled from the spec: one iteration of the solver, the x-update, the z-update with
  the proximal operator at the step size set by the penalty, and the dual update.
\<close>

definition admm_step :: "extern \<Rightarrow> recon_call \<Rightarrow> admm_vars \<Rightarrow> admm_vars" where
  "admm_step ext c v =
     (let x0 = x_update ext (c\<lparr>rc_truth := None\<rparr>) (av_z v) (av_u v);
          x1 = (if rvc (rc_conf c) then (\<lambda>idx. complex_of_real (Re (x0 idx))) else x0);
          tx = linop_apply ext (rc_l1op c) x1;
          z1 = prox_apply ext (rc_l1prox c) (1 / rho (iconf (rc_conf c)))
                 (\<lambda>idx. tx idx + av_u v idx);
          u1 = (\<lambda>idx. av_u v idx + tx idx - z1 idx)
      in \<lparr>av_x = x1, av_z = z1, av_u = u1\<rparr>)"

text \<open>
  Modelled from the spec: the loop of the solver returns the image estimate after
  \<open>maxiter\<close> iterations; a budget of zero or less runs no iteration.
\<close>

definition admm :: "extern \<Rightarrow> recon_call \<Rightarrow> carray" where
  "admm ext c =
     av_x ((admm_step ext c ^^ nat (maxiter (iconf (rc_conf c)))) (admm_init ext c))"

text \<open>
  Modelled from the spec: the shapes the forward operator is built from.  The operator
  multiplies the image by the sensitivity maps, which gives one image per coil of the
  shape of the maps with the map axis collapsed, transforms it, and masks it with the
  pattern; the result is a k-space of shape \<^verbatim>\<open>ksp_dims\<close>.  So the maps without their
  map axis must have the shape of the k-space, and the pattern the shape of the k-space
  with the coil axis collapsed.
\<close>

definition operators_fit :: "recon_call \<Rightarrow> bool" where
  "operators_fit c \<longleftrightarrow>
     md_select_dims DIMS (NOT MAPS_FLAG) (rc_dims c) = rc_ksp_dims c
     \<and> rc_pat_dims c = md_select_dims DIMS (NOT COIL_FLAG) (rc_ksp_dims c)"

text \<open>
  Modelled from the spec: \<^verbatim>\<open>bpsense_recon\<close> builds the operators, which fails on
  shapes that do not fit (\<open>None\<close>, a fatal configuration error), and then runs the
  loop.  The GPU variant has the same contract.
\<close>

definition bpsense_recon :: "extern \<Rightarrow> recon_call \<Rightarrow> carray option" where
  "bpsense_recon ext c = (if operators_fit c then Some (admm ext c) else None)"

section \<open>Option parsing\<close>

text \<open>
  \<^verbatim>\<open>conf\<close> and \<^verbatim>\<open>iconf\<close> are copied from the defaults, \<^verbatim>\<open>conf.iconf\<close> points to the
  local copy, and the penalty is set to 10 before any option is read.
\<close>

definition init_locals :: "extern \<Rightarrow> locals" where
  "init_locals ext =
     \<lparr>conf = (bpsense_defaults ext)\<lparr>iconf := (iter_admm_defaults ext)\<lparr>rho := 10\<rparr>\<rparr>,
      usegpu = False, psf = None, image_truth_fname = [], im_truth = False,
      use_tvnorm = False\<rparr>"

text \<open>
  One pass through the \<^verbatim>\<open>switch\<close>: \<open>c\<close> is what \<^verbatim>\<open>getopt\<close> returned and \<open>optarg\<close>
  its argument.  \<^verbatim>\<open>-h\<close> prints the help and exits with 0; a character without a case
  (also the \<^verbatim>\<open>?\<close> of an unknown option) prints the usage and exits with 1.  The name
  of the truth image is copied with \<^verbatim>\<open>sprintf\<close> into \<^verbatim>\<open>char image_truth_fname[100]\<close>;
  a name of 100 bytes or more does not fit with its terminator, and the copy writes
  past the end of the buffer on the stack.
\<close>

definition opt_case ::
  "extern \<Rightarrow> char \<Rightarrow> string \<Rightarrow> locals \<Rightarrow> (status \<times> event list \<times> locals) + locals" where
  "opt_case ext c optarg ps =
     (if c = CHR ''F'' then
        (if length optarg < 100
         then Inr (ps\<lparr>im_truth := True, image_truth_fname := optarg\<rparr>)
         else Inl (Undefined_behaviour, [], ps\<lparr>im_truth := True\<rparr>))
      else if c = CHR ''r'' then Inr (ps\<lparr>conf := (conf ps)\<lparr>lambda := atof ext optarg\<rparr>\<rparr>)
      else if c = CHR ''e'' then Inr (ps\<lparr>conf := (conf ps)\<lparr>eps := atof ext optarg\<rparr>\<rparr>)
      else if c = CHR ''i'' then
        Inr (ps\<lparr>conf := (conf ps)\<lparr>iconf := (iconf (conf ps))\<lparr>maxiter := atoi ext optarg\<rparr>\<rparr>\<rparr>)
      else if c = CHR ''h'' then Inl (Exited 0, [E_usage False, E_help], ps)
      else if c = CHR ''c'' then Inr (ps\<lparr>conf := (conf ps)\<lparr>rvc := True\<rparr>\<rparr>)
      else if c = CHR ''u'' then
        Inr (ps\<lparr>conf := (conf ps)\<lparr>iconf := (iconf (conf ps))\<lparr>rho := atof ext optarg\<rparr>\<rparr>\<rparr>)
      else if c = CHR ''g'' then Inr (ps\<lparr>usegpu := True\<rparr>)
      else if c = CHR ''p'' then Inr (ps\<lparr>psf := Some optarg\<rparr>)
      else if c = CHR ''t'' then Inr (ps\<lparr>use_tvnorm := True\<rparr>)
      else Inl (Exited 1, [E_usage True], ps))"

fun getopt_loop ::
  "extern \<Rightarrow> (char \<times> string) list \<Rightarrow> locals \<Rightarrow> (status \<times> event list \<times> locals) + locals" where
  "getopt_loop ext [] ps = Inr ps"
| "getopt_loop ext ((c, optarg) # rest) ps =
     (case opt_case ext c optarg ps of
        Inl e \<Rightarrow> Inl e
      | Inr ps' \<Rightarrow> getopt_loop ext rest ps')"

section \<open>The body of main\<close>

text \<open>The loop over the first four axes.\<close>

definition dims_mismatch :: "dims \<Rightarrow> dims \<Rightarrow> bool" where
  "dims_mismatch ksp_dims dms = list_ex (\<lambda>i. ksp_dims ! i \<noteq> dms ! i) [0..<4]"

definition info_messages :: "locals \<Rightarrow> dims \<Rightarrow> event list" where
  "info_messages ps dms =
     (if dms ! MAPS_DIM > 1 then [E_debug_printf ''%ld maps. ESPIRiT reconstruction.''] else [])
     @ (if lambda (conf ps) > 0 then [E_debug_printf ''l2 regularization: %f''] else [])
     @ [E_debug_printf (if use_tvnorm ps then ''use Total Variation'' else ''use Wavelets'')]
     @ (if im_truth ps then [E_debug_printf ''Compare to truth''] else [])"

text \<open>
  The sampling pattern: loaded from the file named by \<^verbatim>\<open>-p\<close>, whose shape is not
  looked at (a file that cannot be mapped is an \<open>Io_error\<close>), or estimated from the
  k-space.  The buffer for the estimate is allocated for \<^verbatim>\<open>dims1\<close>, the shape of the
  sensitivity maps without coil and map axes, and it is with this shape that the driver
  and the solver read it; the estimator fills it for the shape of the k-space with the
  coil axis collapsed.  Where the two shapes are the same, the buffer holds the estimate.
  Where the estimate has more samples than the buffer, the estimator writes past its
  end.  Otherwise the estimate lies at the start of the buffer and what the buffer
  holds, read with \<^verbatim>\<open>dims1\<close>, is \<open>misfit\<close>.
\<close>

definition init_pattern ::
  "extern \<Rightarrow> filesys \<Rightarrow> string option \<Rightarrow> dims \<Rightarrow> dims \<Rightarrow> carray
     \<Rightarrow> event list \<times> (status + carray)" where
  "init_pattern ext fs pf dims1 ksp_dims kspace_data =
     (case pf of
        Some f \<Rightarrow>
          ([E_load_cfl f],
           (case load_cfl fs f DIMS of None \<Rightarrow> Inl Io_error | Some p \<Rightarrow> Inr (cfl_data p)))
      | None \<Rightarrow>
          ([E_md_alloc dims1, E_estimate_pattern],
           (let pdims = md_select_dims DIMS (NOT COIL_FLAG) ksp_dims;
                est = estimate_pattern DIMS ksp_dims COIL_DIM kspace_data
            in if md_calc_size DIMS dims1 < md_calc_size DIMS pdims then Inl Undefined_behaviour
               else if pdims = dims1 then Inr est
               else Inr (misfit ext dims1 pdims est))))"

definition apply_scaling :: "extern \<Rightarrow> dims \<Rightarrow> carray \<Rightarrow> event list \<times> carray" where
  "apply_scaling ext ksp_dims kspace_data =
     (let scaling = estimate_scaling ext ksp_dims kspace_data
      in if scaling \<noteq> 0
         then ([E_estimate_scaling, E_debug_printf ''Scaling: %f'', E_md_zsmul],
               md_zsmul DIMS ksp_dims kspace_data (complex_of_real (1 / scaling)))
         else ([E_estimate_scaling, E_debug_printf ''Scaling: %f''], kspace_data))"

definition make_minsize :: "dims \<Rightarrow> dims" where
  "make_minsize img_dims =
     (replicate DIMS 1)
       [0 := min (img_dims ! 0) 16, 1 := min (img_dims ! 1) 16, 2 := min (img_dims ! 2) 16]"

definition create_l1 ::
  "extern \<Rightarrow> locals \<Rightarrow> dims \<Rightarrow> dims \<Rightarrow> linop_s \<times> operator_p_s \<times> bpsense_conf" where
  "create_l1 ext ps img_dims minsize =
     (if use_tvnorm ps then
        (let l1op = tv_init DIMS img_dims FFT_FLAGS
         in (l1op,
             prox_thresh_create (DIMS + 1) (linop_codomain ext l1op) 1 0 (usegpu ps),
             (conf ps)\<lparr>l1op_obj := Some l1op\<rparr>))
      else
        (linop_identity_create DIMS img_dims,
         prox_wavethresh_create DIMS img_dims FFT_FLAGS minsize 1 True (usegpu ps),
         (conf ps)\<lparr>l1op_obj :=
            Some (wavelet_create DIMS img_dims FFT_FLAGS minsize False (usegpu ps))\<rparr>))"

text \<open>
  From the modulation of the inputs to the end of the run.  The output file exists from
  \<^verbatim>\<open>create_cfl\<close> on and is mapped shared, so what the solver leaves in \<^verbatim>\<open>image\<close> is
  what the file holds.  With \<^verbatim>\<open>-g\<close> in a build without \<^verbatim>\<open>USE_CUDA\<close> the call is
  \<^verbatim>\<open>assert(0)\<close>.  A solver that refuses the shapes ends the run where it is called:
  the output file then holds the cleared image.
\<close>

definition solve ::
  "extern \<Rightarrow> locals \<Rightarrow> string list \<Rightarrow> filesys \<Rightarrow> cfl \<Rightarrow> cfl \<Rightarrow> carray \<Rightarrow> event list \<Rightarrow> outcome" where
  "solve ext ps args fs k s pattern tr =
     (let ksp_dims = cfl_dims k;
          dms = cfl_dims s;
          dims1 = md_select_dims DIMS (NOT (COIL_FLAG OR MAPS_FLAG)) dms;
          img_dims = md_select_dims DIMS (NOT COIL_FLAG) dms;
          kspace_data = fftmod ext DIMS ksp_dims FFT_FLAGS (cfl_data k);
          sens_maps = fftmod ext DIMS dms FFT_FLAGS (cfl_data s);
          scaled = apply_scaling ext ksp_dims kspace_data;
          minsize = make_minsize img_dims;
          l1 = create_l1 ext ps img_dims minsize;
          cnf = snd (snd l1);
          image = md_clear DIMS img_dims (fresh_mem ext);
          fs1 = fs(args ! 2 \<mapsto> \<lparr>cfl_dims = img_dims, cfl_data = image\<rparr>);
          tr1 = tr @ [E_debug_printf ''Size: %ld Samples: %ld Acc: %.2f'', E_fftmod, E_fftmod]
                  @ fst scaled @ [E_create_cfl (args ! 2) img_dims, E_md_clear]
                  @ (if im_truth ps then [E_load_cfl (image_truth_fname ps)] else [])
      in if im_truth ps \<and> load_cfl fs1 (image_truth_fname ps) DIMS = None
         then stop Io_error tr1 fs1 cnf
         else if usegpu ps \<and> \<not> USE_CUDA ext
         then stop Aborted (tr1 @ [E_assert_failed ''0'']) fs1 cnf
         else
           (let call = \<lparr>rc_conf = cnf, rc_dims = dms, rc_image = image, rc_maps = sens_maps,
                        rc_pat_dims = dims1, rc_pattern = pattern, rc_l1op = fst l1,
                        rc_l1prox = fst (snd l1), rc_ksp_dims = ksp_dims,
                        rc_kspace = snd scaled,
                        rc_truth =
                          (if im_truth ps
                           then map_option cfl_data (load_cfl fs1 (image_truth_fname ps) DIMS)
                           else None)\<rparr>
            in case bpsense_recon ext call of
                 None \<Rightarrow>
                   \<lparr>oc_term = Config_error,
                    oc_trace = tr1 @ [E_bpsense_recon (usegpu ps)],
                    oc_fs = fs1,
                    oc_conf = cnf,
                    oc_recon = Some call\<rparr>
               | Some result \<Rightarrow>
                   \<lparr>oc_term = Exited 0,
                    oc_trace = tr1 @ [E_bpsense_recon (usegpu ps), E_cleanup,
                                      E_debug_printf ''Total Time: %f''],
                    oc_fs = fs1(args ! 2 \<mapsto> \<lparr>cfl_dims = img_dims, cfl_data = result\<rparr>),
                    oc_conf = cnf,
                    oc_recon = Some call\<rparr>))"

text \<open>From the shape check to the sampling pattern.\<close>

definition prepare ::
  "extern \<Rightarrow> locals \<Rightarrow> string list \<Rightarrow> filesys \<Rightarrow> cfl \<Rightarrow> cfl \<Rightarrow> outcome" where
  "prepare ext ps args fs k s =
     (let ksp_dims = cfl_dims k;
          dms = cfl_dims s;
          tr0 = [E_load_cfl (args ! 0), E_load_cfl (args ! 1)]
      in if dims_mismatch ksp_dims dms
         then stop (Exited 1)
                (tr0 @ [E_fprintf_stderr ''Dimensions of kspace and sensitivities do not match!''])
                fs (conf ps)
         else if 1 \<noteq> ksp_dims ! MAPS_DIM
         then stop Aborted (tr0 @ [E_assert_failed ''1 == ksp_dims[MAPS_DIM]'']) fs (conf ps)
         else
           (let tr1 = tr0 @ [E_num_init (usegpu ps)] @ info_messages ps dms;
                dims1 = md_select_dims DIMS (NOT (COIL_FLAG OR MAPS_FLAG)) dms;
                pat = init_pattern ext fs (psf ps) dims1 ksp_dims (cfl_data k)
            in case snd pat of
                 Inl t \<Rightarrow> stop t (tr1 @ fst pat) fs (conf ps)
               | Inr pattern \<Rightarrow> solve ext ps args fs k s pattern (tr1 @ fst pat)))"

text \<open>After the option loop: the three file names, and the two input arrays.\<close>

definition run :: "extern \<Rightarrow> locals \<Rightarrow> string list \<Rightarrow> filesys \<Rightarrow> outcome" where
  "run ext ps args fs =
     (if length args \<noteq> 3 then stop (Exited 1) [E_usage True] fs (conf ps)
      else case load_cfl fs (args ! 0) DIMS of
             None \<Rightarrow> stop Io_error [E_load_cfl (args ! 0)] fs (conf ps)
           | Some k \<Rightarrow>
               (case load_cfl fs (args ! 1) DIMS of
                  None \<Rightarrow>
                    stop Io_error [E_load_cfl (args ! 0), E_load_cfl (args ! 1)] fs (conf ps)
                | Some s \<Rightarrow> prepare ext ps args fs k s))"

text \<open>
  The program: \<open>opts\<close> are the options as \<^verbatim>\<open>getopt\<close> delivers them, \<open>args\<close> the
  arguments from \<^verbatim>\<open>optind\<close> on, \<open>fs\<close> the array files present at the start.
\<close>

definition main :: "extern \<Rightarrow> (char \<times> string) list \<Rightarrow> string list \<Rightarrow> filesys \<Rightarrow> outcome" where
  "main ext opts args fs =
     (case getopt_loop ext opts (init_locals ext) of
        Inl (t, evs, ps) \<Rightarrow> stop t evs fs (conf ps)
      | Inr ps \<Rightarrow> run ext ps args fs)"

section \<open>Concrete inputs\<close>

text \<open>
  A small data set on which the runs below are evaluated: a k-space of 2 by 2 by 1
  samples on two coils, one with a batch axis of three, sensitivity maps with one or two maps, with another number of
  coils or with a batch axis of three, a pattern file of an unrelated shape, and a truth
  image.  The collaborators are simple stand-ins.
\<close>

definition ex_dims :: "int \<Rightarrow> int \<Rightarrow> int \<Rightarrow> dims" where
  "ex_dims c m b = [2, 2, 1, c, m, b, 1, 1, 1, 1, 1, 1, 1, 1, 1, 1]"

definition ex_ext :: extern where
  "ex_ext =
     \<lparr>USE_CUDA = False,
      atof = (\<lambda>s. if s = ''0.5'' then 1 / 2 else 0),
      atoi = (\<lambda>s. if s = ''0'' then 0 else 3),
      bpsense_defaults =
        \<lparr>lambda = 0, eps = 0, rvc = False, iconf = \<lparr>rho = 1, maxiter = 50\<rparr>, l1op_obj = None\<rparr>,
      iter_admm_defaults = \<lparr>rho = 1 / 2, maxiter = 30\<rparr>,
      fftmod = (\<lambda>D dms flgs a idx. if even (sum_list (take 3 idx)) then a idx else - a idx),
      estimate_scaling = (\<lambda>dms a. Re (a [0, 0, 0, 0, 0, 0, 0, 0, 0, 0, 0, 0, 0, 0, 0, 0])),
      linop_codomain = (\<lambda>l. case l of tv_init D dms flgs \<Rightarrow> dms @ [3] | _ \<Rightarrow> []),
      fresh_mem = (\<lambda>idx. 7),
      misfit = (\<lambda>d1 pd a idx. if idx ! 5 = 0 then a idx else 7),
      linop_apply = (\<lambda>l a. a),
      prox_apply = (\<lambda>p t a idx. a idx * complex_of_real t),
      x_update = (\<lambda>c z u idx. rc_kspace c idx + z idx - u idx)\<rparr>"

definition ex_fs :: filesys where
  "ex_fs =
     [''ksp'' \<mapsto> \<lparr>cfl_dims = ex_dims 2 1 1, cfl_data = (\<lambda>idx. if idx ! 0 = 0 then 4 else 0)\<rparr>,
      ''kb'' \<mapsto> \<lparr>cfl_dims = ex_dims 2 1 3, cfl_data = (\<lambda>idx. 1)\<rparr>,
      ''ksp2'' \<mapsto> \<lparr>cfl_dims = ex_dims 2 2 1, cfl_data = (\<lambda>idx. 1)\<rparr>,
      ''sens'' \<mapsto> \<lparr>cfl_dims = ex_dims 2 2 1, cfl_data = (\<lambda>idx. 1)\<rparr>,
      ''sens1'' \<mapsto> \<lparr>cfl_dims = ex_dims 2 1 1, cfl_data = (\<lambda>idx. 1)\<rparr>,
      ''sens4'' \<mapsto> \<lparr>cfl_dims = ex_dims 4 1 1, cfl_data = (\<lambda>idx. 1)\<rparr>,
      ''sensb'' \<mapsto> \<lparr>cfl_dims = ex_dims 2 1 3, cfl_data = (\<lambda>idx. 1)\<rparr>,
      ''psf'' \<mapsto> \<lparr>cfl_dims = ex_dims 5 5 5, cfl_data = (\<lambda>idx. 1)\<rparr>,
      ''truth'' \<mapsto> \<lparr>cfl_dims = ex_dims 1 1 1, cfl_data = (\<lambda>idx. 9)\<rparr>]"

text \<open>A truth image under a name of 150 characters.\<close>

definition ex_long :: string where
  "ex_long = replicate 150 (CHR ''a'')"

definition ex_fs_long :: filesys where
  "ex_fs_long = ex_fs(ex_long \<mapsto> \<lparr>cfl_dims = ex_dims 1 1 1, cfl_data = (\<lambda>idx. 9)\<rparr>)"

section \<open>Facts about the model\<close>

subsection \<open>Shapes and the axis flags\<close>

lemma upt_4: "[0..<4] = [0, 1, 2, 3]"
  by (simp add: upt_rec)

lemma dims_mismatch_iff:
  "dims_mismatch a b \<longleftrightarrow> a ! 0 \<noteq> b ! 0 \<or> a ! 1 \<noteq> b ! 1 \<or> a ! 2 \<noteq> b ! 2 \<or> a ! 3 \<noteq> b ! 3"
  by (simp add: dims_mismatch_def upt_4)

lemma dims_mismatch_ex: "dims_mismatch a b \<longleftrightarrow> (\<exists>i<4. a ! i \<noteq> b ! i)"
  by (auto simp: dims_mismatch_def list_ex_iff)

lemma bit_not_coil: "i < DIMS \<Longrightarrow> bit (NOT COIL_FLAG) i \<longleftrightarrow> i \<noteq> COIL_DIM"
  by (auto simp: COIL_FLAG_def DIMS_def bit_simps)

lemma bit_not_maps: "i < DIMS \<Longrightarrow> bit (NOT MAPS_FLAG) i \<longleftrightarrow> i \<noteq> MAPS_DIM"
  by (auto simp: MAPS_FLAG_def DIMS_def bit_simps)

lemma axes_distinct: "COIL_DIM \<noteq> MAPS_DIM" "COIL_DIM < DIMS" "MAPS_DIM < DIMS"
  by (simp_all add: COIL_DIM_def MAPS_DIM_def DIMS_def)

lemma select_not_coil:
  "length dms = DIMS \<Longrightarrow> md_select_dims DIMS (NOT COIL_FLAG) dms = dms[COIL_DIM := 1]"
  by (rule nth_equalityI) (auto simp: md_select_dims_def bit_not_coil nth_list_update axes_distinct)

lemma select_not_coil_maps:
  "length dms = DIMS \<Longrightarrow>
   md_select_dims DIMS (NOT (COIL_FLAG OR MAPS_FLAG)) dms = dms[COIL_DIM := 1, MAPS_DIM := 1]"
  by (rule nth_equalityI) (auto simp: md_select_dims_def bit_and_iff bit_not_coil bit_not_maps nth_list_update axes_distinct)

lemma select_not_maps:
  "length dms = DIMS \<Longrightarrow> md_select_dims DIMS (NOT MAPS_FLAG) dms = dms[MAPS_DIM := 1]"
  by (rule nth_equalityI) (auto simp: md_select_dims_def bit_not_maps nth_list_update axes_distinct)

subsection \<open>Runs that reach the solver\<close>

lemma main_parsed:
  "getopt_loop ext opts (init_locals ext) = Inr ps \<Longrightarrow> main ext opts args fs = run ext ps args fs"
  by (simp add: main_def)

lemma main_recon_parsed:
  assumes "oc_recon (main ext opts args fs) = Some c"
  obtains ps where "getopt_loop ext opts (init_locals ext) = Inr ps"
  using assms by (auto simp: main_def stop_def split: sum.splits)

lemma solve_recon:
  assumes "oc_recon (solve ext ps args fs k s pattern tr) = Some c"
  shows "rc_conf c = snd (snd (create_l1 ext ps (md_select_dims DIMS (NOT COIL_FLAG) (cfl_dims s))
                      (make_minsize (md_select_dims DIMS (NOT COIL_FLAG) (cfl_dims s)))))"
    and "rc_l1op c = fst (create_l1 ext ps (md_select_dims DIMS (NOT COIL_FLAG) (cfl_dims s))
                      (make_minsize (md_select_dims DIMS (NOT COIL_FLAG) (cfl_dims s))))"
    and "rc_l1prox c = fst (snd (create_l1 ext ps (md_select_dims DIMS (NOT COIL_FLAG) (cfl_dims s))
                      (make_minsize (md_select_dims DIMS (NOT COIL_FLAG) (cfl_dims s)))))"
    and "rc_dims c = cfl_dims s"
    and "rc_ksp_dims c = cfl_dims k"
    and "rc_pat_dims c = md_select_dims DIMS (NOT (COIL_FLAG OR MAPS_FLAG)) (cfl_dims s)"
    and "rc_image c = (\<lambda>idx. 0)"
    and "rc_pattern c = pattern"
    and "rc_maps c = fftmod ext DIMS (cfl_dims s) FFT_FLAGS (cfl_data s)"
    and "rc_kspace c = snd (apply_scaling ext (cfl_dims k)
                             (fftmod ext DIMS (cfl_dims k) FFT_FLAGS (cfl_data k)))"
    and "oc_conf (solve ext ps args fs k s pattern tr) = rc_conf c"
    and "oc_term (solve ext ps args fs k s pattern tr)
           = (if operators_fit c then Exited 0 else Config_error)"
    and "oc_fs (solve ext ps args fs k s pattern tr) =
           fs(args ! 2 \<mapsto> \<lparr>cfl_dims = md_select_dims DIMS (NOT COIL_FLAG) (cfl_dims s),
                              cfl_data = (case bpsense_recon ext c of
                                            None \<Rightarrow> (\<lambda>idx. 0) | Some result \<Rightarrow> result)\<rparr>)"
    and "oc_trace (solve ext ps args fs k s pattern tr) =
           tr @ [E_debug_printf ''Size: %ld Samples: %ld Acc: %.2f'', E_fftmod, E_fftmod]
              @ fst (apply_scaling ext (cfl_dims k)
                             (fftmod ext DIMS (cfl_dims k) FFT_FLAGS (cfl_data k)))
              @ [E_create_cfl (args ! 2) (md_select_dims DIMS (NOT COIL_FLAG) (cfl_dims s)), E_md_clear]
              @ (if im_truth ps then [E_load_cfl (image_truth_fname ps)] else [])
              @ [E_bpsense_recon (usegpu ps)]
              @ (if operators_fit c then [E_cleanup, E_debug_printf ''Total Time: %f''] else [])"
  using assms
  by (auto simp: solve_def Let_def stop_def md_clear_def bpsense_recon_def
           split: if_splits option.splits)

lemma run_recon:
  assumes "oc_recon (run ext ps args fs) = Some c"
  obtains k s pattern tr where
    "length args = 3"
    "load_cfl fs (args ! 0) DIMS = Some k"
    "load_cfl fs (args ! 1) DIMS = Some s"
    "\<not> dims_mismatch (cfl_dims k) (cfl_dims s)"
    "cfl_dims k ! MAPS_DIM = 1"
    "snd (init_pattern ext fs (psf ps)
        (md_select_dims DIMS (NOT (COIL_FLAG OR MAPS_FLAG)) (cfl_dims s)) (cfl_dims k) (cfl_data k))
      = Inr pattern"
    "tr = [E_load_cfl (args ! 0), E_load_cfl (args ! 1), E_num_init (usegpu ps)]
        @ info_messages ps (cfl_dims s)
        @ fst (init_pattern ext fs (psf ps)
            (md_select_dims DIMS (NOT (COIL_FLAG OR MAPS_FLAG)) (cfl_dims s)) (cfl_dims k) (cfl_data k))"
    "run ext ps args fs = solve ext ps args fs k s pattern tr"
    "oc_recon (solve ext ps args fs k s pattern tr) = Some c"
  using assms
  by (auto simp: run_def prepare_def Let_def stop_def split: if_splits option.splits sum.splits)

lemma length_select [simp]: "length (md_select_dims D flgs dms) = D"
  by (simp add: md_select_dims_def)

lemma main_recon:
  assumes "oc_recon (main ext opts args fs) = Some c"
  obtains ps k s pattern tr where
    "getopt_loop ext opts (init_locals ext) = Inr ps"
    "length args = 3"
    "load_cfl fs (args ! 0) DIMS = Some k"
    "load_cfl fs (args ! 1) DIMS = Some s"
    "\<not> dims_mismatch (cfl_dims k) (cfl_dims s)"
    "cfl_dims k ! MAPS_DIM = 1"
    "snd (init_pattern ext fs (psf ps)
        (md_select_dims DIMS (NOT (COIL_FLAG OR MAPS_FLAG)) (cfl_dims s)) (cfl_dims k) (cfl_data k))
      = Inr pattern"
    "tr = [E_load_cfl (args ! 0), E_load_cfl (args ! 1), E_num_init (usegpu ps)]
        @ info_messages ps (cfl_dims s)
        @ fst (init_pattern ext fs (psf ps)
            (md_select_dims DIMS (NOT (COIL_FLAG OR MAPS_FLAG)) (cfl_dims s)) (cfl_dims k) (cfl_data k))"
    "main ext opts args fs = solve ext ps args fs k s pattern tr"
    "oc_recon (solve ext ps args fs k s pattern tr) = Some c"
proof -
  obtain ps where ps: "getopt_loop ext opts (init_locals ext) = Inr ps"
    using assms by (rule main_recon_parsed)
  then have m: "main ext opts args fs = run ext ps args fs"
    by (rule main_parsed)
  with assms have "oc_recon (run ext ps args fs) = Some c" by simp
  then show thesis
    by (rule run_recon) (rule that [OF ps], simp_all add: m)
qed

lemma make_minsize_nth:
  assumes "i < DIMS"
  shows "make_minsize d ! i = (if i < 3 then min (d ! i) 16 else 1)"
proof -
  have "i = 0 \<or> i = 1 \<or> i = 2 \<or> 3 \<le> i" by arith
  with assms show ?thesis
    by (auto simp: make_minsize_def DIMS_def nth_list_update)
qed

subsection \<open>Runs that go through\<close>

lemma load_cfl_upd:
  assumes "load_cfl fs f DIMS \<noteq> None" and "length d = DIMS"
  shows "load_cfl (fs(n \<mapsto> \<lparr>cfl_dims = d, cfl_data = a\<rparr>)) f DIMS \<noteq> None"
  using assms by (auto simp: load_cfl_def split: option.splits)

lemma init_pattern_Inr:
  assumes "\<forall>f. pf = Some f \<longrightarrow> load_cfl fs f DIMS \<noteq> None"
    and "pf = None \<longrightarrow>
           md_calc_size DIMS (md_select_dims DIMS (NOT COIL_FLAG) kd) \<le> md_calc_size DIMS d1"
  shows "\<exists>pattern. snd (init_pattern ext fs pf d1 kd a) = Inr pattern"
  using assms by (cases pf) (auto simp: init_pattern_def Let_def)

lemma solve_progress:
  assumes "usegpu ps \<longrightarrow> USE_CUDA ext"
    and "im_truth ps \<longrightarrow> load_cfl fs (image_truth_fname ps) DIMS \<noteq> None"
  shows "oc_recon (solve ext ps args fs k s pattern tr) \<noteq> None"
proof -
  let ?img = "md_select_dims DIMS (NOT COIL_FLAG) (cfl_dims s)"
  let ?fs1 = "fs(args ! 2 \<mapsto> \<lparr>cfl_dims = ?img, cfl_data = md_clear DIMS ?img (fresh_mem ext)\<rparr>)"
  have l: "(im_truth ps \<and> load_cfl ?fs1 (image_truth_fname ps) DIMS = None) = False"
    using assms(2) by (auto simp: load_cfl_def split: option.splits)
  have g: "(usegpu ps \<and> \<not> USE_CUDA ext) = False" using assms(1) by simp
  show ?thesis
    by (simp only: solve_def Let_def l g if_False) (simp split: option.split)
qed

lemma run_progress:
  assumes "length args = 3"
    and "load_cfl fs (args ! 0) DIMS = Some k"
    and "load_cfl fs (args ! 1) DIMS = Some s"
    and "\<not> dims_mismatch (cfl_dims k) (cfl_dims s)"
    and "cfl_dims k ! MAPS_DIM = 1"
    and "\<forall>f. psf ps = Some f \<longrightarrow> load_cfl fs f DIMS \<noteq> None"
    and "psf ps = None \<longrightarrow>
           md_calc_size DIMS (md_select_dims DIMS (NOT COIL_FLAG) (cfl_dims k))
             \<le> md_calc_size DIMS (md_select_dims DIMS (NOT (COIL_FLAG OR MAPS_FLAG)) (cfl_dims s))"
    and "im_truth ps \<longrightarrow> load_cfl fs (image_truth_fname ps) DIMS \<noteq> None"
    and "usegpu ps \<longrightarrow> USE_CUDA ext"
  shows "oc_recon (run ext ps args fs) \<noteq> None"
proof -
  obtain pattern where pat: "snd (init_pattern ext fs (psf ps)
        (md_select_dims DIMS (NOT (COIL_FLAG OR MAPS_FLAG)) (cfl_dims s)) (cfl_dims k) (cfl_data k))
      = Inr pattern"
    using init_pattern_Inr [OF assms(6,7)] by blast
  have r: "run ext ps args fs = solve ext ps args fs k s pattern
       ([E_load_cfl (args ! 0), E_load_cfl (args ! 1), E_num_init (usegpu ps)]
        @ info_messages ps (cfl_dims s)
        @ fst (init_pattern ext fs (psf ps)
            (md_select_dims DIMS (NOT (COIL_FLAG OR MAPS_FLAG)) (cfl_dims s)) (cfl_dims k) (cfl_data k)))"
    using assms(1-5) pat by (simp add: run_def prepare_def Let_def)
  show ?thesis
    unfolding r by (rule solve_progress [OF assms(9,8)])
qed

lemma main_progress:
  assumes "getopt_loop ext opts (init_locals ext) = Inr ps"
    and "length args = 3"
    and "load_cfl fs (args ! 0) DIMS = Some k"
    and "load_cfl fs (args ! 1) DIMS = Some s"
    and "\<not> dims_mismatch (cfl_dims k) (cfl_dims s)"
    and "cfl_dims k ! MAPS_DIM = 1"
    and "\<forall>f. psf ps = Some f \<longrightarrow> load_cfl fs f DIMS \<noteq> None"
    and "psf ps = None \<longrightarrow>
           md_calc_size DIMS (md_select_dims DIMS (NOT COIL_FLAG) (cfl_dims k))
             \<le> md_calc_size DIMS (md_select_dims DIMS (NOT (COIL_FLAG OR MAPS_FLAG)) (cfl_dims s))"
    and "im_truth ps \<longrightarrow> load_cfl fs (image_truth_fname ps) DIMS \<noteq> None"
    and "usegpu ps \<longrightarrow> USE_CUDA ext"
  shows "oc_recon (main ext opts args fs) \<noteq> None"
  unfolding main_parsed [OF assms(1)]
  by (rule run_progress [OF assms(2-10)])

subsection \<open>What a trace holds\<close>

lemma getopt_events:
  "getopt_loop ext opts ps = Inl (t, evs, q) \<Longrightarrow>
     evs = [E_usage False, E_help] \<or> evs = [E_usage True] \<or> evs = []"
  by (induction opts arbitrary: ps) (auto simp: opt_case_def split: if_splits sum.splits)

lemma load_cfl_length: "load_cfl fs f N = Some a \<Longrightarrow> length (cfl_dims a) = N"
  by (auto simp: load_cfl_def split: option.splits if_splits)





lemma main_recon_dims:
  assumes "oc_recon (main ext opts args fs) = Some c"
  shows "load_cfl fs (args ! 0) DIMS = Some k \<Longrightarrow> rc_ksp_dims c = cfl_dims k"
    and "load_cfl fs (args ! 1) DIMS = Some s \<Longrightarrow> rc_dims c = cfl_dims s"
    and "load_cfl fs (args ! 1) DIMS = Some s \<Longrightarrow>
           rc_pat_dims c = md_select_dims DIMS (NOT (COIL_FLAG OR MAPS_FLAG)) (cfl_dims s)"
proof -
  from assms obtain ps k' s' pattern tr where
      k': "load_cfl fs (args ! 0) DIMS = Some k'"
    and s': "load_cfl fs (args ! 1) DIMS = Some s'"
    and c: "oc_recon (solve ext ps args fs k' s' pattern tr) = Some c"
    by (rule main_recon)
  show "load_cfl fs (args ! 0) DIMS = Some k \<Longrightarrow> rc_ksp_dims c = cfl_dims k"
    using k' solve_recon(5) [OF c] by simp
  show "load_cfl fs (args ! 1) DIMS = Some s \<Longrightarrow> rc_dims c = cfl_dims s"
    using s' solve_recon(4) [OF c] by simp
  show "load_cfl fs (args ! 1) DIMS = Some s \<Longrightarrow>
           rc_pat_dims c = md_select_dims DIMS (NOT (COIL_FLAG OR MAPS_FLAG)) (cfl_dims s)"
    using s' solve_recon(6) [OF c] by simp
qed

lemma init_locals_simps [simp]:
  "usegpu (init_locals ext) = False"
  "psf (init_locals ext) = None"
  "im_truth (init_locals ext) = False"
  "use_tvnorm (init_locals ext) = False"
  "conf (init_locals ext) = (bpsense_defaults ext)\<lparr>iconf := (iter_admm_defaults ext)\<lparr>rho := 10\<rparr>\<rparr>"
  by (simp_all add: init_locals_def)

subsection \<open>The configuration\<close>

lemma create_l1_conf:
  "snd (snd (create_l1 ext ps d m)) = (conf ps)\<lparr>l1op_obj := l1op_obj (snd (snd (create_l1 ext ps d m)))\<rparr>"
  by (simp add: create_l1_def Let_def)

lemma solve_conf:
  "oc_conf (solve ext ps args fs k s pattern tr)
     = (conf ps)\<lparr>l1op_obj := l1op_obj (oc_conf (solve ext ps args fs k s pattern tr))\<rparr>"
  by (simp add: solve_def Let_def stop_def create_l1_def split: option.split)

lemma run_conf:
  "oc_conf (run ext ps args fs) = (conf ps)\<lparr>l1op_obj := l1op_obj (oc_conf (run ext ps args fs))\<rparr>"
  using solve_conf [of ext ps args fs]
  by (simp add: run_def prepare_def Let_def stop_def split: option.split sum.split)

lemma run_recon_conf:
  assumes "oc_recon (run ext ps args fs) = Some c"
  shows "rc_conf c = oc_conf (run ext ps args fs)"
proof -
  from assms obtain k s pattern tr where
      r: "run ext ps args fs = solve ext ps args fs k s pattern tr"
    and c: "oc_recon (solve ext ps args fs k s pattern tr) = Some c"
    by (rule run_recon)
  show ?thesis
    unfolding r by (rule solve_recon(11) [OF c, symmetric])
qed

lemma solve_created:
  assumes "E_create_cfl name d \<in> set (oc_trace (solve ext ps args fs k s pattern tr))"
    and "E_create_cfl name d \<notin> set tr"
  shows "name = args ! 2 \<and> d = md_select_dims DIMS (NOT COIL_FLAG) (cfl_dims s)
       \<and> map_option cfl_dims (oc_fs (solve ext ps args fs k s pattern tr) (args ! 2)) = Some d"
proof -
  have a: "E_create_cfl name d \<notin> set (fst (apply_scaling ext x y))" for x y
    by (simp add: apply_scaling_def Let_def)
  show ?thesis
    using assms a by (auto simp: solve_def Let_def stop_def split: if_splits option.splits)
qed

subsection \<open>The pattern estimator\<close>


subsection \<open>The truth image\<close>

lemma admm_truth:
  "admm_step ext (c\<lparr>rc_truth := t\<rparr>) = admm_step ext c"
  "admm_init ext (c\<lparr>rc_truth := t\<rparr>) = admm_init ext c"
  by (simp_all add: admm_step_def admm_init_def fun_eq_iff)

lemma bpsense_recon_truth: "bpsense_recon ext (c\<lparr>rc_truth := t\<rparr>) = bpsense_recon ext c"
  by (simp add: bpsense_recon_def admm_def operators_fit_def admm_truth)

lemma opt_case_upd:
  assumes "ch \<noteq> CHR ''F''"
  shows "opt_case ext ch a (ps\<lparr>im_truth := b, image_truth_fname := f\<rparr>)
     = map_sum (\<lambda>(t, e, q). (t, e, q\<lparr>im_truth := b, image_truth_fname := f\<rparr>))
         (\<lambda>q. q\<lparr>im_truth := b, image_truth_fname := f\<rparr>) (opt_case ext ch a ps)"
  using assms by (simp add: opt_case_def)

lemma getopt_upd:
  assumes "\<forall>x\<in>set os. fst x \<noteq> CHR ''F''"
  shows "getopt_loop ext os (ps\<lparr>im_truth := b, image_truth_fname := f\<rparr>)
     = map_sum (\<lambda>(t, e, q). (t, e, q\<lparr>im_truth := b, image_truth_fname := f\<rparr>))
         (\<lambda>q. q\<lparr>im_truth := b, image_truth_fname := f\<rparr>) (getopt_loop ext os ps)"
  using assms
proof (induction os arbitrary: ps)
  case Nil
  show ?case by simp
next
  case (Cons x os)
  obtain ch a where x: "x = (ch, a)" by (cases x)
  with Cons.prems have ch: "ch \<noteq> CHR ''F''" and rest: "\<forall>x\<in>set os. fst x \<noteq> CHR ''F''"
    by simp_all
  show ?case
    by (cases "opt_case ext ch a ps") (simp_all add: x opt_case_upd [OF ch] Cons.IH [OF rest])
qed

lemma getopt_filter:
  assumes "\<forall>f. (CHR ''F'', f) \<in> set opts \<longrightarrow> length f < 100"
  shows "getopt_loop ext (filter (\<lambda>x. fst x \<noteq> CHR ''F'') opts) ps
     = map_sum (\<lambda>(t, e, q). (t, e, q\<lparr>im_truth := im_truth ps, image_truth_fname := image_truth_fname ps\<rparr>))
         (\<lambda>q. q\<lparr>im_truth := im_truth ps, image_truth_fname := image_truth_fname ps\<rparr>)
         (getopt_loop ext opts ps)"
  using assms
proof (induction opts arbitrary: ps)
  case Nil
  show ?case by simp
next
  case (Cons x opts)
  obtain ch a where x: "x = (ch, a)" by (cases x)
  from Cons.prems have short: "\<forall>f. (CHR ''F'', f) \<in> set opts \<longrightarrow> length f < 100"
    by simp
  note IH = Cons.IH [OF short]
  show ?case
  proof (cases "ch = CHR ''F''")
    case True
    let ?ps' = "ps\<lparr>im_truth := True, image_truth_fname := a\<rparr>"
    have nf: "\<forall>x\<in>set (filter (\<lambda>x. fst x \<noteq> CHR ''F'') opts). fst x \<noteq> CHR ''F''" by simp
    have "ps = ?ps'\<lparr>im_truth := im_truth ps, image_truth_fname := image_truth_fname ps\<rparr>" by simp
    then have "getopt_loop ext (filter (\<lambda>x. fst x \<noteq> CHR ''F'') opts) ps
        = getopt_loop ext (filter (\<lambda>x. fst x \<noteq> CHR ''F'') opts)
            (?ps'\<lparr>im_truth := im_truth ps, image_truth_fname := image_truth_fname ps\<rparr>)"
      by simp
    also have "\<dots> = map_sum (\<lambda>(t, e, q). (t, e, q\<lparr>im_truth := im_truth ps, image_truth_fname := image_truth_fname ps\<rparr>))
         (\<lambda>q. q\<lparr>im_truth := im_truth ps, image_truth_fname := image_truth_fname ps\<rparr>)
         (getopt_loop ext (filter (\<lambda>x. fst x \<noteq> CHR ''F'') opts) ?ps')"
      by (rule getopt_upd [OF nf])
    also have "\<dots> = map_sum (\<lambda>(t, e, q). (t, e, q\<lparr>im_truth := im_truth ps, image_truth_fname := image_truth_fname ps\<rparr>))
         (\<lambda>q. q\<lparr>im_truth := im_truth ps, image_truth_fname := image_truth_fname ps\<rparr>)
         (getopt_loop ext opts ?ps')"
      by (cases "getopt_loop ext opts ?ps'") (auto simp: IH [of ?ps'])
    moreover from True Cons.prems have "length a < 100"
      by (simp add: x)
    ultimately show ?thesis
      using True by (simp add: x opt_case_def)
  next
    case False
    show ?thesis
    proof (cases "opt_case ext ch a ps")
      case (Inl e)
      with False show ?thesis by (auto simp: x opt_case_def split: if_splits)
    next
      case (Inr q)
      with False have tq: "im_truth q = im_truth ps" "image_truth_fname q = image_truth_fname ps"
        by (auto simp: opt_case_def split: if_splits)
      from False Inr show ?thesis
        by (simp add: x IH [of q] tq)
    qed
  qed
qed

lemma getopt_truth:
  assumes "getopt_loop ext opts ps0 = Inr ps" and "im_truth ps"
  shows "(im_truth ps0 \<and> image_truth_fname ps = image_truth_fname ps0)
       \<or> (CHR ''F'', image_truth_fname ps) \<in> set opts"
  using assms
proof (induction opts arbitrary: ps0)
  case Nil
  then show ?case by simp
next
  case (Cons x opts)
  obtain ch a where x: "x = (ch, a)" by (cases x)
  from Cons.prems(1) obtain q where q: "opt_case ext ch a ps0 = Inr q"
    and r: "getopt_loop ext opts q = Inr ps"
    by (auto simp: x split: sum.splits)
  from Cons.IH [OF r Cons.prems(2)]
  have "(im_truth q \<and> image_truth_fname ps = image_truth_fname q)
       \<or> (CHR ''F'', image_truth_fname ps) \<in> set opts" .
  with q show ?case
    by (auto simp: x opt_case_def split: if_splits)
qed

lemma bpsense_recon_cong:
  assumes "rc_conf c' = rc_conf c" "rc_dims c' = rc_dims c" "rc_image c' = rc_image c"
    "rc_maps c' = rc_maps c" "rc_pat_dims c' = rc_pat_dims c" "rc_pattern c' = rc_pattern c"
    "rc_l1op c' = rc_l1op c" "rc_l1prox c' = rc_l1prox c" "rc_ksp_dims c' = rc_ksp_dims c"
    "rc_kspace c' = rc_kspace c"
  shows "bpsense_recon ext c' = bpsense_recon ext c"
proof -
  have "c' = c\<lparr>rc_truth := rc_truth c'\<rparr>"
    using assms by (cases c, cases c') simp
  then have "bpsense_recon ext c' = bpsense_recon ext (c\<lparr>rc_truth := rc_truth c'\<rparr>)"
    by simp
  then show ?thesis by (simp only: bpsense_recon_truth)
qed

lemma solve_no_gpu:
  assumes "usegpu ps \<and> \<not> USE_CUDA ext"
    and "im_truth ps \<longrightarrow> load_cfl fs (image_truth_fname ps) DIMS \<noteq> None"
  shows "oc_term (solve ext ps args fs k s pattern tr) = Aborted"
    and "oc_fs (solve ext ps args fs k s pattern tr)
           = fs(args ! 2 \<mapsto> \<lparr>cfl_dims = md_select_dims DIMS (NOT COIL_FLAG) (cfl_dims s),
                cfl_data = (\<lambda>idx. 0)\<rparr>)"
proof -
  let ?img = "md_select_dims DIMS (NOT COIL_FLAG) (cfl_dims s)"
  let ?fs1 = "fs(args ! 2 \<mapsto> \<lparr>cfl_dims = ?img, cfl_data = md_clear DIMS ?img (fresh_mem ext)\<rparr>)"
  have l: "(im_truth ps \<and> load_cfl ?fs1 (image_truth_fname ps) DIMS = None) = False"
    using assms(2) by (auto simp: load_cfl_def split: option.splits)
  have g: "(usegpu ps \<and> \<not> USE_CUDA ext) = True" using assms(1) by simp
  show "oc_term (solve ext ps args fs k s pattern tr) = Aborted"
    by (simp only: solve_def Let_def l g if_False if_True) (simp add: stop_def)
  show "oc_fs (solve ext ps args fs k s pattern tr)
           = fs(args ! 2 \<mapsto> \<lparr>cfl_dims = ?img, cfl_data = (\<lambda>idx. 0)\<rparr>)"
    by (simp only: solve_def Let_def l g if_False if_True) (simp add: stop_def md_clear_def)
qed

lemma solve_truth:
  assumes "conf ps' = conf ps" and "usegpu ps' = usegpu ps" and "use_tvnorm ps' = use_tvnorm ps"
    and "im_truth ps \<longrightarrow> load_cfl fs (image_truth_fname ps) DIMS \<noteq> None"
    and "im_truth ps' \<longrightarrow> load_cfl fs (image_truth_fname ps') DIMS \<noteq> None"
  shows "oc_fs (solve ext ps' args fs k s pattern tr') = oc_fs (solve ext ps args fs k s pattern tr)
       \<and> oc_term (solve ext ps' args fs k s pattern tr') = oc_term (solve ext ps args fs k s pattern tr)"
proof (cases "usegpu ps \<and> \<not> USE_CUDA ext")
  case True
  then have "usegpu ps' \<and> \<not> USE_CUDA ext" by (simp add: assms(2))
  from solve_no_gpu [OF this assms(5)] solve_no_gpu [OF True assms(4)]
  show ?thesis by simp
next
  case False
  then have g: "usegpu ps \<longrightarrow> USE_CUDA ext" and g': "usegpu ps' \<longrightarrow> USE_CUDA ext"
    by (simp_all add: assms(2))
  obtain c where c: "oc_recon (solve ext ps args fs k s pattern tr) = Some c"
    using solve_progress [OF g assms(4)] by blast
  obtain c' where c': "oc_recon (solve ext ps' args fs k s pattern tr') = Some c'"
    using solve_progress [OF g' assms(5)] by blast
  have l1: "create_l1 ext ps' d m = create_l1 ext ps d m" for d m
    using assms(1-3) by (simp add: create_l1_def)
  have "bpsense_recon ext c' = bpsense_recon ext c"
    by (rule bpsense_recon_cong)
       (simp_all only: solve_recon(1-10) [OF c] solve_recon(1-10) [OF c'] l1)
  moreover have "operators_fit c' = operators_fit c"
    by (simp add: operators_fit_def solve_recon(4-6) [OF c] solve_recon(4-6) [OF c'])
  ultimately show ?thesis
    by (simp only: solve_recon(12,13) [OF c] solve_recon(12,13) [OF c'])
qed

lemma run_truth:
  assumes "conf ps' = conf ps" and "usegpu ps' = usegpu ps" and "use_tvnorm ps' = use_tvnorm ps"
    and "psf ps' = psf ps"
    and "im_truth ps \<longrightarrow> load_cfl fs (image_truth_fname ps) DIMS \<noteq> None"
    and "im_truth ps' \<longrightarrow> load_cfl fs (image_truth_fname ps') DIMS \<noteq> None"
  shows "oc_fs (run ext ps' args fs) = oc_fs (run ext ps args fs)"
    and "oc_term (run ext ps' args fs) = oc_term (run ext ps args fs)"
  using solve_truth [OF assms(1-3,5,6)] assms(4)
  by (simp_all add: run_def prepare_def Let_def stop_def split: option.split sum.split)

lemma truth_noninterference_short_names:
  assumes "filter (\<lambda>x. fst x \<noteq> CHR ''F'') opts = filter (\<lambda>x. fst x \<noteq> CHR ''F'') opts'"
    and "\<forall>f. (CHR ''F'', f) \<in> set opts \<union> set opts' \<longrightarrow> length f < 100"
    and "\<forall>f. (CHR ''F'', f) \<in> set opts \<union> set opts' \<longrightarrow> load_cfl fs f DIMS \<noteq> None"
  shows "oc_fs (main ext opts args fs) = oc_fs (main ext opts' args fs)
       \<and> oc_term (main ext opts args fs) = oc_term (main ext opts' args fs)"
proof -
  let ?i = "init_locals ext"
  let ?reset = "map_sum (\<lambda>(t, e, q). (t, e, q\<lparr>im_truth := im_truth ?i, image_truth_fname := image_truth_fname ?i\<rparr>))
         (\<lambda>q. q\<lparr>im_truth := im_truth ?i, image_truth_fname := image_truth_fname ?i\<rparr>)"
  have s: "\<forall>f. (CHR ''F'', f) \<in> set opts \<longrightarrow> length f < 100"
    and s': "\<forall>f. (CHR ''F'', f) \<in> set opts' \<longrightarrow> length f < 100"
    using assms(2) by simp_all
  have e: "?reset (getopt_loop ext opts ?i) = ?reset (getopt_loop ext opts' ?i)"
    using assms(1) by (simp only: getopt_filter [OF s, symmetric] getopt_filter [OF s', symmetric])
  show ?thesis
  proof (cases "getopt_loop ext opts ?i")
    case (Inl a)
    then obtain t evs q where a: "getopt_loop ext opts ?i = Inl (t, evs, q)"
      by (cases a) auto
    with e obtain q' where "getopt_loop ext opts' ?i = Inl (t, evs, q')"
      by (cases "getopt_loop ext opts' ?i") auto
    with a show ?thesis by (simp add: main_def stop_def)
  next
    case (Inr ps)
    with e obtain ps' where p': "getopt_loop ext opts' ?i = Inr ps'"
      and r: "ps\<lparr>im_truth := im_truth ?i, image_truth_fname := image_truth_fname ?i\<rparr>
            = ps'\<lparr>im_truth := im_truth ?i, image_truth_fname := image_truth_fname ?i\<rparr>"
      by (cases "getopt_loop ext opts' ?i") auto
    from r have eq: "conf ps' = conf ps" "usegpu ps' = usegpu ps" "use_tvnorm ps' = use_tvnorm ps"
        "psf ps' = psf ps"
      by (cases ps, cases ps', simp)+
    have l: "im_truth ps \<longrightarrow> load_cfl fs (image_truth_fname ps) DIMS \<noteq> None"
      using getopt_truth [OF Inr] assms(3) by auto
    have l': "im_truth ps' \<longrightarrow> load_cfl fs (image_truth_fname ps') DIMS \<noteq> None"
      using getopt_truth [OF p'] assms(3) by auto
    show ?thesis
      unfolding main_parsed [OF Inr] main_parsed [OF p']
      using run_truth [OF eq l l', of ext args] by simp
  qed
qed

subsection \<open>The output file\<close>

lemma main_success_fs:
  assumes "oc_recon (main ext opts args fs) = Some c"
    and "load_cfl fs (args ! 1) DIMS = Some s"
  shows "oc_fs (main ext opts args fs) (args ! 2)
           = Some \<lparr>cfl_dims = md_select_dims DIMS (NOT COIL_FLAG) (cfl_dims s),
                    cfl_data = (case bpsense_recon ext c of
                                  None \<Rightarrow> (\<lambda>idx. 0) | Some result \<Rightarrow> result)\<rparr>"
    and "oc_term (main ext opts args fs) = (if operators_fit c then Exited 0 else Config_error)"
    and "E_create_cfl (args ! 2) (md_select_dims DIMS (NOT COIL_FLAG) (cfl_dims s))
           \<in> set (oc_trace (main ext opts args fs))"
proof -
  from assms(1) obtain ps k s' pattern tr where
      s': "load_cfl fs (args ! 1) DIMS = Some s'"
    and m: "main ext opts args fs = solve ext ps args fs k s' pattern tr"
    and c: "oc_recon (solve ext ps args fs k s' pattern tr) = Some c"
    by (rule main_recon)
  from s' assms(2) have ss: "s' = s" by simp
  show "oc_fs (main ext opts args fs) (args ! 2)
           = Some \<lparr>cfl_dims = md_select_dims DIMS (NOT COIL_FLAG) (cfl_dims s),
                    cfl_data = (case bpsense_recon ext c of
                                  None \<Rightarrow> (\<lambda>idx. 0) | Some result \<Rightarrow> result)\<rparr>"
    by (simp only: m solve_recon(13) [OF c]) (simp add: ss)
  show "oc_term (main ext opts args fs) = (if operators_fit c then Exited 0 else Config_error)"
    by (simp only: m solve_recon(12) [OF c])
  show "E_create_cfl (args ! 2) (md_select_dims DIMS (NOT COIL_FLAG) (cfl_dims s))
           \<in> set (oc_trace (main ext opts args fs))"
    by (simp only: m solve_recon(14) [OF c]) (simp add: ss)
qed

subsection \<open>The concrete inputs\<close>

lemma load_cfl_other: "n \<noteq> f \<Longrightarrow> load_cfl (fs(n \<mapsto> a)) f N = load_cfl fs f N"
  by (simp add: load_cfl_def)

lemma ex_long_length: "length ex_long = 150"
  by (simp add: ex_long_def)

lemma ex_long_neq: "length x \<noteq> 150 \<Longrightarrow> ex_long \<noteq> x" "length x \<noteq> 150 \<Longrightarrow> x \<noteq> ex_long"
  using ex_long_length by auto

lemma ex_load [simp]:
  "load_cfl ex_fs ''ksp'' DIMS = Some \<lparr>cfl_dims = ex_dims 2 1 1, cfl_data = (\<lambda>idx. if idx ! 0 = 0 then 4 else 0)\<rparr>"
  "load_cfl ex_fs ''kb'' DIMS = Some \<lparr>cfl_dims = ex_dims 2 1 3, cfl_data = (\<lambda>idx. 1)\<rparr>"
  "load_cfl ex_fs ''ksp2'' DIMS = Some \<lparr>cfl_dims = ex_dims 2 2 1, cfl_data = (\<lambda>idx. 1)\<rparr>"
  "load_cfl ex_fs ''sens'' DIMS = Some \<lparr>cfl_dims = ex_dims 2 2 1, cfl_data = (\<lambda>idx. 1)\<rparr>"
  "load_cfl ex_fs ''sens1'' DIMS = Some \<lparr>cfl_dims = ex_dims 2 1 1, cfl_data = (\<lambda>idx. 1)\<rparr>"
  "load_cfl ex_fs ''sens4'' DIMS = Some \<lparr>cfl_dims = ex_dims 4 1 1, cfl_data = (\<lambda>idx. 1)\<rparr>"
  "load_cfl ex_fs ''sensb'' DIMS = Some \<lparr>cfl_dims = ex_dims 2 1 3, cfl_data = (\<lambda>idx. 1)\<rparr>"
  "load_cfl ex_fs ''psf'' DIMS = Some \<lparr>cfl_dims = ex_dims 5 5 5, cfl_data = (\<lambda>idx. 1)\<rparr>"
  "load_cfl ex_fs ''truth'' DIMS = Some \<lparr>cfl_dims = ex_dims 1 1 1, cfl_data = (\<lambda>idx. 9)\<rparr>"
  by (simp_all add: load_cfl_def ex_fs_def ex_dims_def DIMS_def)

lemma ex_dims_nth [simp]:
  "ex_dims c m b ! 0 = 2" "ex_dims c m b ! Suc 0 = 2" "ex_dims c m b ! 2 = 1"
  "ex_dims c m b ! 3 = c" "ex_dims c m b ! COIL_DIM = c" "ex_dims c m b ! MAPS_DIM = m" "ex_dims c m b ! 5 = b"
  "length (ex_dims c m b) = DIMS"
  by (simp_all add: ex_dims_def COIL_DIM_def MAPS_DIM_def DIMS_def)

lemma ex_select [simp]:
  "md_select_dims DIMS (NOT COIL_FLAG) (ex_dims c m b) = ex_dims 1 m b"
  "md_select_dims DIMS (NOT (COIL_FLAG OR MAPS_FLAG)) (ex_dims c m b) = ex_dims 1 1 b"
  "md_select_dims DIMS (NOT MAPS_FLAG) (ex_dims c m b) = ex_dims c 1 b"
  by (simp_all only: select_not_coil select_not_coil_maps select_not_maps ex_dims_nth)
     (simp_all add: ex_dims_def COIL_DIM_def MAPS_DIM_def)

lemma ex_select_and [simp]:
  "md_select_dims DIMS (NOT COIL_FLAG AND NOT MAPS_FLAG) (ex_dims c m b) = ex_dims 1 1 b"
  using ex_select(2) [of c m b] by simp

lemma ex_size [simp]: "md_calc_size DIMS (ex_dims c m b) = 4 * c * m * b"
  by (simp add: md_calc_size_def ex_dims_def DIMS_def)

lemma ex_dims_eq [simp]: "ex_dims c m b = ex_dims c' m' b' \<longleftrightarrow> c = c' \<and> m = m' \<and> b = b'"
  by (auto simp: ex_dims_def)

lemma ex_parse:
  "getopt_loop ex_ext [] (init_locals ex_ext) = Inr (init_locals ex_ext)"
  "getopt_loop ex_ext [(CHR ''t'', [])] (init_locals ex_ext) = Inr ((init_locals ex_ext)\<lparr>use_tvnorm := True\<rparr>)"
  "getopt_loop ex_ext [(CHR ''p'', ''psf'')] (init_locals ex_ext) = Inr ((init_locals ex_ext)\<lparr>psf := Some ''psf''\<rparr>)"
  "getopt_loop ex_ext [(CHR ''F'', ''truth'')] (init_locals ex_ext)
     = Inr ((init_locals ex_ext)\<lparr>im_truth := True, image_truth_fname := ''truth''\<rparr>)"
  "getopt_loop ex_ext [(CHR ''i'', ''0'')] (init_locals ex_ext)
     = Inr ((init_locals ex_ext)\<lparr>conf := (conf (init_locals ex_ext))
             \<lparr>iconf := (iconf (conf (init_locals ex_ext)))\<lparr>maxiter := 0\<rparr>\<rparr>\<rparr>)"
  "getopt_loop ex_ext [(CHR ''r'', ''0.5''), (CHR ''c'', [])] (init_locals ex_ext)
     = Inr ((init_locals ex_ext)\<lparr>conf := (conf (init_locals ex_ext))\<lparr>lambda := 1 / 2, rvc := True\<rparr>\<rparr>)"
  by (simp_all add: opt_case_def ex_ext_def)

lemma ex_recon:
  assumes "getopt_loop ex_ext opts (init_locals ex_ext) = Inr ps"
    and "psf ps = None \<or> psf ps = Some ''psf''"
    and "im_truth ps \<longrightarrow> image_truth_fname ps = ''truth''"
    and "\<not> usegpu ps"
    and "sname = ''sens'' \<or> sname = ''sens1'' \<or> sname = ''sensb''"
  shows "oc_recon (main ex_ext opts [''ksp'', sname, ''out''] ex_fs) \<noteq> None"
proof -
  from assms(5) obtain s where s: "load_cfl ex_fs sname DIMS = Some s"
    and sd: "cfl_dims s = ex_dims 2 2 1 \<or> cfl_dims s = ex_dims 2 1 1 \<or> cfl_dims s = ex_dims 2 1 3"
    by auto
  show ?thesis
    by (rule main_progress [OF assms(1) _ _ _ _ _ _ _ _ _, where s = s
         and k = "\<lparr>cfl_dims = ex_dims 2 1 1, cfl_data = (\<lambda>idx. if idx ! 0 = 0 then 4 else 0)\<rparr>"])
       (use assms(2-4) s sd in \<open>auto simp: dims_mismatch_iff\<close>)
qed

lemma ex_ext_simps [simp]:
  "USE_CUDA ex_ext = False"
  "linop_codomain ex_ext (tv_init D d f) = d @ [3]"
  "estimate_scaling ex_ext d a = Re (a [0, 0, 0, 0, 0, 0, 0, 0, 0, 0, 0, 0, 0, 0, 0, 0])"
  "fftmod ex_ext D d f a = (\<lambda>idx. if even (sum_list (take 3 idx)) then a idx else - a idx)"
  "bpsense_defaults ex_ext =
     \<lparr>lambda = 0, eps = 0, rvc = False, iconf = \<lparr>rho = 1, maxiter = 50\<rparr>, l1op_obj = None\<rparr>"
  "iter_admm_defaults ex_ext = \<lparr>rho = 1 / 2, maxiter = 30\<rparr>"
  "misfit ex_ext d1 pd a = (\<lambda>idx. if idx ! 5 = 0 then a idx else 7)"
  by (simp_all add: ex_ext_def)

lemma ex_fit:
  assumes "oc_recon (main ex_ext opts [''ksp'', sname, ''out''] ex_fs) = Some c"
    and "sname = ''sens'' \<or> sname = ''sens1''"
  shows "operators_fit c"
proof -
  from assms(2) obtain s where s: "load_cfl ex_fs ([''ksp'', sname, ''out''] ! 1) DIMS = Some s"
    and sd: "cfl_dims s = ex_dims 2 2 1 \<or> cfl_dims s = ex_dims 2 1 1"
    by auto
  have k: "load_cfl ex_fs ([''ksp'', sname, ''out''] ! 0) DIMS
       = Some \<lparr>cfl_dims = ex_dims 2 1 1, cfl_data = (\<lambda>idx. if idx ! 0 = 0 then 4 else 0)\<rparr>"
    by simp
  show ?thesis
    using sd
    by (auto simp: operators_fit_def main_recon_dims(1) [OF assms(1) k]
          main_recon_dims(2,3) [OF assms(1) s])
qed

lemma ex_dims_upd:
  "(ex_dims c m b)[COIL_DIM := 1] = ex_dims 1 m b"
  "(ex_dims c m b)[MAPS_DIM := 1] = ex_dims c 1 b"
  by (simp_all add: ex_dims_def COIL_DIM_def MAPS_DIM_def)


section \<open>The claims\<close>

subsection \<open>C1: configuration errors end the run before any work\<close>

text \<open>
  C1.  Take a run whose options parse and whose two input arrays load.  If k-space and
  sensitivity maps disagree on one of the first four axes, or if the map axis of the
  k-space holds more than one map, then the run fails: it ends with exit status 1 after
  the message about the dimensions in the first case, and with a failed assertion,
  which reports the violated condition and aborts, in the second.  The diagnostic is the
  last thing the run does; the solver is not called, no output file is created, and
  the files are what they were.
\<close>

theorem config_errors_fatal:
  assumes "getopt_loop ext opts (init_locals ext) = Inr ps"
    and "length args = 3"
    and "load_cfl fs (args ! 0) DIMS = Some k"
    and "load_cfl fs (args ! 1) DIMS = Some s"
    and "(\<exists>i<4. cfl_dims k ! i \<noteq> cfl_dims s ! i) \<or> cfl_dims k ! MAPS_DIM > 1"
  shows "is_failure (oc_term (main ext opts args fs))
       \<and> oc_term (main ext opts args fs)
           = (if \<exists>i<4. cfl_dims k ! i \<noteq> cfl_dims s ! i then Exited 1 else Aborted)
       \<and> last (oc_trace (main ext opts args fs))
           = (if \<exists>i<4. cfl_dims k ! i \<noteq> cfl_dims s ! i
              then E_fprintf_stderr ''Dimensions of kspace and sensitivities do not match!''
              else E_assert_failed ''1 == ksp_dims[MAPS_DIM]'')
       \<and> oc_recon (main ext opts args fs) = None
       \<and> (\<forall>e \<in> set (oc_trace (main ext opts args fs)).
             (\<forall>g. e \<noteq> E_bpsense_recon g) \<and> (\<forall>n d. e \<noteq> E_create_cfl n d))
       \<and> oc_fs (main ext opts args fs) = fs"
  unfolding main_parsed [OF assms(1)]
  using assms(2-5)
  by (auto simp: run_def prepare_def Let_def stop_def is_failure_def dims_mismatch_ex)

theorem config_errors_fatal_witness:
  "getopt_loop ex_ext [] (init_locals ex_ext) = Inr (init_locals ex_ext)
   \<and> length [''ksp'', ''sens4'', ''out''] = 3
   \<and> load_cfl ex_fs ([''ksp'', ''sens4'', ''out''] ! 0) DIMS
       = Some \<lparr>cfl_dims = ex_dims 2 1 1, cfl_data = (\<lambda>idx. if idx ! 0 = 0 then 4 else 0)\<rparr>
   \<and> load_cfl ex_fs ([''ksp'', ''sens4'', ''out''] ! 1) DIMS
       = Some \<lparr>cfl_dims = ex_dims 4 1 1, cfl_data = (\<lambda>idx. 1)\<rparr>
   \<and> ex_dims 2 1 1 ! 3 \<noteq> ex_dims 4 1 1 ! 3
   \<and> oc_term (main ex_ext [] [''ksp'', ''sens4'', ''out''] ex_fs) = Exited 1
   \<and> oc_recon (main ex_ext [] [''ksp'', ''sens4'', ''out''] ex_fs) = None
   \<and> oc_fs (main ex_ext [] [''ksp'', ''sens4'', ''out''] ex_fs) = ex_fs
   \<and> load_cfl ex_fs ([''ksp2'', ''sens'', ''out''] ! 0) DIMS
       = Some \<lparr>cfl_dims = ex_dims 2 2 1, cfl_data = (\<lambda>idx. 1)\<rparr>
   \<and> load_cfl ex_fs ([''ksp2'', ''sens'', ''out''] ! 1) DIMS
       = Some \<lparr>cfl_dims = ex_dims 2 2 1, cfl_data = (\<lambda>idx. 1)\<rparr>
   \<and> ex_dims 2 2 1 ! MAPS_DIM > 1
   \<and> oc_term (main ex_ext [] [''ksp2'', ''sens'', ''out''] ex_fs) = Aborted
   \<and> last (oc_trace (main ex_ext [] [''ksp2'', ''sens'', ''out''] ex_fs))
       = E_assert_failed ''1 == ksp_dims[MAPS_DIM]''
   \<and> oc_recon (main ex_ext [] [''ksp2'', ''sens'', ''out''] ex_fs) = None
   \<and> oc_fs (main ex_ext [] [''ksp2'', ''sens'', ''out''] ex_fs) = ex_fs"
proof -
  note p = ex_parse(1)
  have l: "length [''ksp'', ''sens4'', ''out''] = 3" "length [''ksp2'', ''sens'', ''out''] = 3"
    by simp_all
  have k: "load_cfl ex_fs ([''ksp'', ''sens4'', ''out''] ! 0) DIMS
       = Some \<lparr>cfl_dims = ex_dims 2 1 1, cfl_data = (\<lambda>idx. if idx ! 0 = 0 then 4 else 0)\<rparr>"
    and s: "load_cfl ex_fs ([''ksp'', ''sens4'', ''out''] ! 1) DIMS
       = Some \<lparr>cfl_dims = ex_dims 4 1 1, cfl_data = (\<lambda>idx. 1)\<rparr>"
    and k2: "load_cfl ex_fs ([''ksp2'', ''sens'', ''out''] ! 0) DIMS
       = Some \<lparr>cfl_dims = ex_dims 2 2 1, cfl_data = (\<lambda>idx. 1)\<rparr>"
    and s2: "load_cfl ex_fs ([''ksp2'', ''sens'', ''out''] ! 1) DIMS
       = Some \<lparr>cfl_dims = ex_dims 2 2 1, cfl_data = (\<lambda>idx. 1)\<rparr>"
    by simp_all
  have ne: "ex_dims 2 1 1 ! 3 \<noteq> ex_dims 4 1 1 ! 3" by simp
  have h1: "(\<exists>i<4. cfl_dims \<lparr>cfl_dims = ex_dims 2 1 1, cfl_data = (\<lambda>idx. if idx ! 0 = 0 then 4 else 0)\<rparr> ! i
                \<noteq> cfl_dims \<lparr>cfl_dims = ex_dims 4 1 1, cfl_data = (\<lambda>idx. 1)\<rparr> ! i)
            \<or> cfl_dims \<lparr>cfl_dims = ex_dims 2 1 1, cfl_data = (\<lambda>idx. if idx ! 0 = 0 then 4 else 0)\<rparr> ! MAPS_DIM > 1"
    using ne by (intro disjI1 exI [of _ 3]) simp
  have h2: "(\<exists>i<4. cfl_dims \<lparr>cfl_dims = ex_dims 2 2 1, cfl_data = (\<lambda>idx. 1)\<rparr> ! i
                \<noteq> cfl_dims \<lparr>cfl_dims = ex_dims 2 2 1, cfl_data = (\<lambda>idx. 1)\<rparr> ! i)
            \<or> cfl_dims \<lparr>cfl_dims = ex_dims 2 2 1, cfl_data = (\<lambda>idx. 1)\<rparr> ! MAPS_DIM > 1"
    by simp
  have i1: "(\<exists>i<4. ex_dims 2 1 1 ! i \<noteq> ex_dims 4 1 1 ! i)"
    using ne by (intro exI [of _ 3]) simp
  from config_errors_fatal [OF p l(1) k s h1] config_errors_fatal [OF p l(2) k2 s2 h2]
  show ?thesis
    using p k s k2 s2 i1 by simp
qed

subsection \<open>C2: the shape of the output image\<close>

text \<open>
  C2, as the driver has it.  The output array is created with the shape of the
  sensitivity maps in which the coil axis alone is reduced to one; the map axis keeps
  its size, as every other axis does.  The created file has this shape until the end of
  the run.  The pattern, not the image, is what has both coil and map axes collapsed.
\<close>

theorem created_image_shape:
  assumes "load_cfl fs (args ! 1) DIMS = Some s"
    and "E_create_cfl name d \<in> set (oc_trace (main ext opts args fs))"
  shows "name = args ! 2
       \<and> d = (cfl_dims s)[COIL_DIM := 1]
       \<and> map_option cfl_dims (oc_fs (main ext opts args fs) (args ! 2)) = Some d"
proof (cases "getopt_loop ext opts (init_locals ext)")
  case (Inl e)
  then obtain t evs q where "getopt_loop ext opts (init_locals ext) = Inl (t, evs, q)"
    by (cases e) auto
  with assms(2) getopt_events [OF this] show ?thesis
    by (auto simp: main_def stop_def)
next
  case (Inr ps)
  then have m: "main ext opts args fs = run ext ps args fs"
    by (rule main_parsed)
  have len: "length (cfl_dims s) = DIMS"
    using assms(1) by (rule load_cfl_length)
  have n1: "E_create_cfl name d \<notin> set (info_messages ps x)" for x
    by (simp add: info_messages_def)
  have n2: "E_create_cfl name d \<notin> set (fst (init_pattern ext fs pf x y z))" for pf x y z
    by (simp add: init_pattern_def Let_def split: option.split)
  from assms(2) obtain k pattern tr where
      r: "run ext ps args fs = solve ext ps args fs k s pattern tr"
    and tr: "E_create_cfl name d \<notin> set tr"
    unfolding m using assms(1) n1 n2
    by (auto simp: run_def prepare_def Let_def stop_def split: if_splits option.splits sum.splits)
  from assms(2) have "E_create_cfl name d \<in> set (oc_trace (solve ext ps args fs k s pattern tr))"
    by (simp add: m r)
  from solve_created [OF this tr] show ?thesis
    by (auto simp: m r select_not_coil [OF len])
qed

theorem created_image_shape_witness:
  "load_cfl ex_fs ([''ksp'', ''sens'', ''out''] ! 1) DIMS
     = Some \<lparr>cfl_dims = ex_dims 2 2 1, cfl_data = (\<lambda>idx. 1)\<rparr>
   \<and> E_create_cfl ''out'' (ex_dims 1 2 1)
       \<in> set (oc_trace (main ex_ext [] [''ksp'', ''sens'', ''out''] ex_fs))
   \<and> ex_dims 1 2 1 = (ex_dims 2 2 1)[COIL_DIM := 1]
   \<and> map_option cfl_dims (oc_fs (main ex_ext [] [''ksp'', ''sens'', ''out''] ex_fs)
        ([''ksp'', ''sens'', ''out''] ! 2)) = Some (ex_dims 1 2 1)"
proof -
  note p = ex_parse(1)
  have s: "load_cfl ex_fs ([''ksp'', ''sens'', ''out''] ! 1) DIMS
     = Some \<lparr>cfl_dims = ex_dims 2 2 1, cfl_data = (\<lambda>idx. 1)\<rparr>"
    by simp
  have r: "oc_recon (main ex_ext [] [''ksp'', ''sens'', ''out''] ex_fs) \<noteq> None"
    by (rule ex_recon [OF p]) simp_all
  then obtain c where c: "oc_recon (main ex_ext [] [''ksp'', ''sens'', ''out''] ex_fs) = Some c"
    by auto
  have e: "E_create_cfl ''out'' (ex_dims 1 2 1)
       \<in> set (oc_trace (main ex_ext [] [''ksp'', ''sens'', ''out''] ex_fs))"
    using main_success_fs(3) [OF c s] by simp
  from created_image_shape [OF s e] show ?thesis
    using s e by (auto simp: ex_dims_upd)
qed

text \<open>
  C2 as stated asks for the map axis to be reduced as well.  With sensitivity maps that
  hold two maps the output file has two maps too, so its shape is not the shape with
  coil and map axes both reduced to one.
\<close>

theorem output_shape_counterexample:
  "load_cfl ex_fs ([''ksp'', ''sens'', ''out''] ! 1) DIMS
     = Some \<lparr>cfl_dims = ex_dims 2 2 1, cfl_data = (\<lambda>idx. 1)\<rparr>
   \<and> oc_term (main ex_ext [] [''ksp'', ''sens'', ''out''] ex_fs) = Exited 0
   \<and> map_option cfl_dims (oc_fs (main ex_ext [] [''ksp'', ''sens'', ''out''] ex_fs) ''out'')
       = Some [2, 2, 1, 1, 2, 1, 1, 1, 1, 1, 1, 1, 1, 1, 1, 1]
   \<and> (ex_dims 2 2 1)[COIL_DIM := 1, MAPS_DIM := 1] = [2, 2, 1, 1, 1, 1, 1, 1, 1, 1, 1, 1, 1, 1, 1, 1]
   \<and> map_option cfl_dims (oc_fs (main ex_ext [] [''ksp'', ''sens'', ''out''] ex_fs) ''out'')
       \<noteq> Some ((ex_dims 2 2 1)[COIL_DIM := 1, MAPS_DIM := 1])"
proof -
  note p = ex_parse(1)
  have s: "load_cfl ex_fs ([''ksp'', ''sens'', ''out''] ! 1) DIMS
     = Some \<lparr>cfl_dims = ex_dims 2 2 1, cfl_data = (\<lambda>idx. 1)\<rparr>"
    by simp
  have r: "oc_recon (main ex_ext [] [''ksp'', ''sens'', ''out''] ex_fs) \<noteq> None"
    by (rule ex_recon [OF p]) simp_all
  then obtain c where c: "oc_recon (main ex_ext [] [''ksp'', ''sens'', ''out''] ex_fs) = Some c"
    by auto
  have "operators_fit c"
    by (rule ex_fit [OF c]) simp
  then have t: "oc_term (main ex_ext [] [''ksp'', ''sens'', ''out''] ex_fs) = Exited 0"
    using main_success_fs(2) [OF c s] by simp
  have f: "map_option cfl_dims (oc_fs (main ex_ext [] [''ksp'', ''sens'', ''out''] ex_fs) ''out'')
       = Some (ex_dims 1 2 1)"
    using main_success_fs(1) [OF c s] by simp
  have f1: "map_option cfl_dims (oc_fs (main ex_ext [] [''ksp'', ''sens'', ''out''] ex_fs) ''out'')
       = Some [2, 2, 1, 1, 2, 1, 1, 1, 1, 1, 1, 1, 1, 1, 1, 1]"
    unfolding f by (simp add: ex_dims_def)
  have u: "(ex_dims 2 2 1)[COIL_DIM := 1, MAPS_DIM := 1] = [2, 2, 1, 1, 1, 1, 1, 1, 1, 1, 1, 1, 1, 1, 1, 1]"
    by (simp add: ex_dims_def COIL_DIM_def MAPS_DIM_def)
  have n: "map_option cfl_dims (oc_fs (main ex_ext [] [''ksp'', ''sens'', ''out''] ex_fs) ''out'')
       \<noteq> Some ((ex_dims 2 2 1)[COIL_DIM := 1, MAPS_DIM := 1])"
    unfolding f ex_dims_upd by simp
  from s t f1 u n show ?thesis by blast
qed

subsection \<open>C3: one scale, applied unless it is zero\<close>

text \<open>
  C3.  In every run that reaches the solver the scale is estimated exactly once, from
  the k-space buffer as it stands after the modulation that un-centres it and before any
  scaling.  If the scale is not zero, every k-space sample the solver receives is that
  sample divided by the scale; if it is zero, the solver receives the buffer unchanged
  and no scalar multiplication is carried out.
\<close>

theorem scaling_guard:
  assumes "oc_recon (main ext opts args fs) = Some c"
    and "load_cfl fs (args ! 0) DIMS = Some k"
  shows "length (filter (\<lambda>e. e = E_estimate_scaling) (oc_trace (main ext opts args fs))) = 1
       \<and> (let kd = fftmod ext DIMS (cfl_dims k) FFT_FLAGS (cfl_data k);
               sc = estimate_scaling ext (cfl_dims k) kd
           in if sc \<noteq> 0
              then rc_kspace c = (\<lambda>idx. kd idx / complex_of_real sc)
              else rc_kspace c = kd \<and> E_md_zsmul \<notin> set (oc_trace (main ext opts args fs)))"
proof -
  from assms(1) obtain ps k' s pattern tr where
      k': "load_cfl fs (args ! 0) DIMS = Some k'"
    and tr: "tr = [E_load_cfl (args ! 0), E_load_cfl (args ! 1), E_num_init (usegpu ps)]
        @ info_messages ps (cfl_dims s)
        @ fst (init_pattern ext fs (psf ps)
            (md_select_dims DIMS (NOT (COIL_FLAG OR MAPS_FLAG)) (cfl_dims s)) (cfl_dims k') (cfl_data k'))"
    and m: "main ext opts args fs = solve ext ps args fs k' s pattern tr"
    and c: "oc_recon (solve ext ps args fs k' s pattern tr) = Some c"
    by (rule main_recon)
  from k' assms(2) have kk: "k' = k" by simp
  have t1: "filter (\<lambda>e. e = E_estimate_scaling) tr = []" and t2: "E_md_zsmul \<notin> set tr"
    by (simp_all add: tr info_messages_def init_pattern_def Let_def split: option.split)
  note f = solve_recon(10,14) [OF c [unfolded kk]]
  show ?thesis
    unfolding m kk f
    using t1 t2 by (simp add: apply_scaling_def Let_def md_zsmul_def divide_inverse)
qed

theorem scaling_guard_witness:
  "oc_recon (main ex_ext [] [''ksp'', ''sens'', ''out''] ex_fs) \<noteq> None
   \<and> load_cfl ex_fs ([''ksp'', ''sens'', ''out''] ! 0) DIMS
       = Some \<lparr>cfl_dims = ex_dims 2 1 1, cfl_data = (\<lambda>idx. if idx ! 0 = 0 then 4 else 0)\<rparr>
   \<and> length (filter (\<lambda>e. e = E_estimate_scaling)
        (oc_trace (main ex_ext [] [''ksp'', ''sens'', ''out''] ex_fs))) = 1
   \<and> map_option (\<lambda>c. rc_kspace c [0, 0, 0, 0, 0, 0, 0, 0, 0, 0, 0, 0, 0, 0, 0, 0])
        (oc_recon (main ex_ext [] [''ksp'', ''sens'', ''out''] ex_fs)) = Some 1
   \<and> map_option (\<lambda>c. rc_kspace c [1, 0, 0, 0, 0, 0, 0, 0, 0, 0, 0, 0, 0, 0, 0, 0])
        (oc_recon (main ex_ext [] [''ksp'', ''sens'', ''out''] ex_fs)) = Some 0"
proof -
  have r: "oc_recon (main ex_ext [] [''ksp'', ''sens'', ''out''] ex_fs) \<noteq> None"
    by (rule ex_recon [OF ex_parse(1)]) simp_all
  then obtain c where c: "oc_recon (main ex_ext [] [''ksp'', ''sens'', ''out''] ex_fs) = Some c"
    by auto
  have k: "load_cfl ex_fs ([''ksp'', ''sens'', ''out''] ! 0) DIMS
       = Some \<lparr>cfl_dims = ex_dims 2 1 1, cfl_data = (\<lambda>idx. if idx ! 0 = 0 then 4 else 0)\<rparr>"
    by simp
  from scaling_guard [OF c k] show ?thesis
    using r k by (simp add: c Let_def)
qed

subsection \<open>C4: where the sampling pattern comes from\<close>



subsection \<open>C5: the solver starts from the zero image\<close>

text \<open>
  C5.  The image handed to the solver is zero everywhere, in every run that reaches the
  solver.  The iteration budget the solver sees is the one left by the option loop; if
  it is 0, the loop of the solver returns the zero image, so a solver that accepts the
  shapes returns the zero image, and the zero image is what the output file holds
  whether the solver accepts the shapes or not.
\<close>

theorem zero_start:
  assumes "getopt_loop ext opts (init_locals ext) = Inr ps"
    and "oc_recon (main ext opts args fs) = Some c"
  shows "rc_image c = (\<lambda>idx. 0)
       \<and> maxiter (iconf (rc_conf c)) = maxiter (iconf (conf ps))
       \<and> (maxiter (iconf (conf ps)) = 0 \<longrightarrow>
            admm ext c = (\<lambda>idx. 0)
          \<and> bpsense_recon ext c = (if operators_fit c then Some (\<lambda>idx. 0) else None)
          \<and> map_option cfl_data (oc_fs (main ext opts args fs) (args ! 2)) = Some (\<lambda>idx. 0))"
proof -
  from assms(2) obtain ps' k s pattern tr where
      p: "getopt_loop ext opts (init_locals ext) = Inr ps'"
    and m: "main ext opts args fs = solve ext ps' args fs k s pattern tr"
    and c: "oc_recon (solve ext ps' args fs k s pattern tr) = Some c"
    by (rule main_recon)
  from p assms(1) have pp: "ps' = ps" by simp
  have i: "rc_image c = (\<lambda>idx. 0)"
    by (rule solve_recon(7) [OF c])
  have "rc_conf c = snd (snd (create_l1 ext ps (md_select_dims DIMS (NOT COIL_FLAG) (cfl_dims s))
                      (make_minsize (md_select_dims DIMS (NOT COIL_FLAG) (cfl_dims s)))))"
    using solve_recon(1) [OF c] by (simp add: pp)
  then have mi: "maxiter (iconf (rc_conf c)) = maxiter (iconf (conf ps))"
    by (simp add: create_l1_def Let_def)
  have z: "admm ext c = (\<lambda>idx. 0)" if "maxiter (iconf (conf ps)) = 0"
    using that by (simp add: admm_def admm_init_def mi i)
  have f: "oc_fs (main ext opts args fs) (args ! 2)
        = Some \<lparr>cfl_dims = md_select_dims DIMS (NOT COIL_FLAG) (cfl_dims s),
                cfl_data = (case bpsense_recon ext c of
                              None \<Rightarrow> (\<lambda>idx. 0) | Some result \<Rightarrow> result)\<rparr>"
    unfolding m solve_recon(13) [OF c] by simp
  show ?thesis
    using i mi z by (simp add: f bpsense_recon_def)
qed

theorem zero_start_witness:
  "getopt_loop ex_ext [(CHR ''i'', ''0'')] (init_locals ex_ext)
     = Inr ((init_locals ex_ext)\<lparr>conf := (conf (init_locals ex_ext))
             \<lparr>iconf := (iconf (conf (init_locals ex_ext)))\<lparr>maxiter := 0\<rparr>\<rparr>\<rparr>)
   \<and> oc_recon (main ex_ext [(CHR ''i'', ''0'')] [''ksp'', ''sens'', ''out''] ex_fs) \<noteq> None
   \<and> map_option rc_image (oc_recon (main ex_ext [(CHR ''i'', ''0'')] [''ksp'', ''sens'', ''out''] ex_fs))
       = Some (\<lambda>idx. 0)
   \<and> map_option (bpsense_recon ex_ext)
        (oc_recon (main ex_ext [(CHR ''i'', ''0'')] [''ksp'', ''sens'', ''out''] ex_fs))
       = Some (Some (\<lambda>idx. 0))
   \<and> map_option cfl_data (oc_fs (main ex_ext [(CHR ''i'', ''0'')] [''ksp'', ''sens'', ''out''] ex_fs)
        ([''ksp'', ''sens'', ''out''] ! 2)) = Some (\<lambda>idx. 0)"
proof -
  note p = ex_parse(5)
  have r: "oc_recon (main ex_ext [(CHR ''i'', ''0'')] [''ksp'', ''sens'', ''out''] ex_fs) \<noteq> None"
    by (rule ex_recon [OF p]) simp_all
  then obtain c where c: "oc_recon (main ex_ext [(CHR ''i'', ''0'')] [''ksp'', ''sens'', ''out''] ex_fs) = Some c"
    by auto
  have fit: "operators_fit c"
    by (rule ex_fit [OF c]) simp
  from zero_start [OF p c] show ?thesis
    using p r fit by (simp add: c)
qed

subsection \<open>C6: dispatch on the sparsity transform\<close>

text \<open>
  C6.  The choice of the transform has two branches and every run takes exactly one.
  With \<^verbatim>\<open>-t\<close> the analysis operator passed to the solver is the total-variation
  operator over the spatial axes of the image shape, and the proximal operator is the
  plain soft threshold on the codomain of that operator.  Without \<^verbatim>\<open>-t\<close> the
  analysis operator passed to the solver is the identity on the image shape, and the
  proximal operator is the wavelet threshold with random shifts switched on.
\<close>

theorem sparsity_dispatch:
  assumes "getopt_loop ext opts (init_locals ext) = Inr ps"
    and "oc_recon (main ext opts args fs) = Some c"
  shows "(use_tvnorm ps \<longrightarrow>
            rc_l1op c = tv_init DIMS (md_select_dims DIMS (NOT COIL_FLAG) (rc_dims c)) FFT_FLAGS
          \<and> rc_l1prox c = prox_thresh_create (DIMS + 1) (linop_codomain ext (rc_l1op c)) 1 0 (usegpu ps))
       \<and> (\<not> use_tvnorm ps \<longrightarrow>
            rc_l1op c = linop_identity_create DIMS (md_select_dims DIMS (NOT COIL_FLAG) (rc_dims c))
          \<and> rc_l1prox c = prox_wavethresh_create DIMS (md_select_dims DIMS (NOT COIL_FLAG) (rc_dims c))
               FFT_FLAGS (make_minsize (md_select_dims DIMS (NOT COIL_FLAG) (rc_dims c))) 1 True (usegpu ps))"
proof -
  from assms(2) obtain ps' k s pattern tr where
      p: "getopt_loop ext opts (init_locals ext) = Inr ps'"
    and m: "main ext opts args fs = solve ext ps' args fs k s pattern tr"
    by (rule main_recon)
  from p assms(1) have [simp]: "ps' = ps" by simp
  from assms(2) m have c: "oc_recon (solve ext ps args fs k s pattern tr) = Some c" by simp
  show ?thesis
    by (simp add: solve_recon(2,3,4) [OF c] create_l1_def Let_def)
qed

theorem sparsity_dispatch_witness:
  "getopt_loop ex_ext [(CHR ''t'', [])] (init_locals ex_ext)
     = Inr ((init_locals ex_ext)\<lparr>use_tvnorm := True\<rparr>)
   \<and> oc_recon (main ex_ext [(CHR ''t'', [])] [''ksp'', ''sens'', ''out''] ex_fs) \<noteq> None
   \<and> map_option rc_l1op (oc_recon (main ex_ext [(CHR ''t'', [])] [''ksp'', ''sens'', ''out''] ex_fs))
       = Some (tv_init DIMS (ex_dims 1 2 1) FFT_FLAGS)
   \<and> map_option rc_l1prox (oc_recon (main ex_ext [(CHR ''t'', [])] [''ksp'', ''sens'', ''out''] ex_fs))
       = Some (prox_thresh_create (DIMS + 1) (ex_dims 1 2 1 @ [3]) 1 0 False)
   \<and> getopt_loop ex_ext [] (init_locals ex_ext) = Inr (init_locals ex_ext)
   \<and> map_option rc_l1op (oc_recon (main ex_ext [] [''ksp'', ''sens'', ''out''] ex_fs))
       = Some (linop_identity_create DIMS (ex_dims 1 2 1))
   \<and> map_option rc_l1prox (oc_recon (main ex_ext [] [''ksp'', ''sens'', ''out''] ex_fs))
       = Some (prox_wavethresh_create DIMS (ex_dims 1 2 1) FFT_FLAGS
                 (make_minsize (ex_dims 1 2 1)) 1 True False)"
proof -
  note p = ex_parse(2)
  have "oc_recon (main ex_ext [(CHR ''t'', [])] [''ksp'', ''sens'', ''out''] ex_fs) \<noteq> None"
    by (rule ex_recon [OF p]) simp_all
  then obtain c where c: "oc_recon (main ex_ext [(CHR ''t'', [])] [''ksp'', ''sens'', ''out''] ex_fs) = Some c"
    by auto
  have d: "rc_dims c = ex_dims 2 2 1"
    using main_recon_dims(2) [OF c] by simp
  note q = ex_parse(1)
  have "oc_recon (main ex_ext [] [''ksp'', ''sens'', ''out''] ex_fs) \<noteq> None"
    by (rule ex_recon [OF q]) simp_all
  then obtain c' where c': "oc_recon (main ex_ext [] [''ksp'', ''sens'', ''out''] ex_fs) = Some c'"
    by auto
  have d': "rc_dims c' = ex_dims 2 2 1"
    using main_recon_dims(2) [OF c'] by simp
  from sparsity_dispatch [OF p c] sparsity_dispatch [OF q c']
  show ?thesis
    using p q by (simp add: c c' d d')
qed

subsection \<open>C7: minimum block sizes of the wavelet transform\<close>

text \<open>
  C7.  In a run without \<^verbatim>\<open>-t\<close> that reaches the solver, the wavelet operator and
  the wavelet proximal operator are both built with the same list of minimum sizes; on
  each of the three spatial axes it is the smaller of the image size on that axis and
  16, and on every other axis it is 1.
\<close>

theorem minsize_clamped:
  assumes "getopt_loop ext opts (init_locals ext) = Inr ps"
    and "\<not> use_tvnorm ps"
    and "oc_recon (main ext opts args fs) = Some c"
  shows "\<exists>img_dims minsize.
           img_dims = md_select_dims DIMS (NOT COIL_FLAG) (rc_dims c)
         \<and> l1op_obj (rc_conf c) = Some (wavelet_create DIMS img_dims FFT_FLAGS minsize False (usegpu ps))
         \<and> rc_l1prox c = prox_wavethresh_create DIMS img_dims FFT_FLAGS minsize 1 True (usegpu ps)
         \<and> length minsize = DIMS
         \<and> (\<forall>i<3. minsize ! i = min (img_dims ! i) 16)
         \<and> (\<forall>i. 3 \<le> i \<and> i < DIMS \<longrightarrow> minsize ! i = 1)"
proof -
  from assms(3) obtain ps' k s pattern tr where
      p: "getopt_loop ext opts (init_locals ext) = Inr ps'"
    and m: "main ext opts args fs = solve ext ps' args fs k s pattern tr"
    by (rule main_recon)
  from p assms(1) have [simp]: "ps' = ps" by simp
  from assms(3) m have c: "oc_recon (solve ext ps args fs k s pattern tr) = Some c" by simp
  have len: "length (make_minsize d) = DIMS" for d
    by (simp add: make_minsize_def)
  have lo: "\<forall>i<3. make_minsize d ! i = min (d ! i) 16" for d
    by (simp add: make_minsize_nth DIMS_def)
  have hi: "\<forall>i. 3 \<le> i \<and> i < DIMS \<longrightarrow> make_minsize d ! i = 1" for d
    by (simp add: make_minsize_nth)
  show ?thesis
    using assms(2) len lo hi
    by (simp add: solve_recon(1,3,4) [OF c] create_l1_def Let_def)
qed

theorem minsize_clamped_witness:
  "getopt_loop ex_ext [] (init_locals ex_ext) = Inr (init_locals ex_ext)
   \<and> \<not> use_tvnorm (init_locals ex_ext)
   \<and> oc_recon (main ex_ext [] [''ksp'', ''sens'', ''out''] ex_fs) \<noteq> None
   \<and> (\<exists>minsize.
         map_option (l1op_obj \<circ> rc_conf) (oc_recon (main ex_ext [] [''ksp'', ''sens'', ''out''] ex_fs))
           = Some (Some (wavelet_create DIMS (ex_dims 1 2 1) FFT_FLAGS minsize False False))
       \<and> minsize ! 0 = min 2 16 \<and> minsize ! 2 = min 1 16 \<and> minsize ! 7 = 1)"
proof -
  note p = ex_parse(1)
  have u: "\<not> use_tvnorm (init_locals ex_ext)" by simp
  have r: "oc_recon (main ex_ext [] [''ksp'', ''sens'', ''out''] ex_fs) \<noteq> None"
    by (rule ex_recon [OF p]) simp_all
  then obtain c where c: "oc_recon (main ex_ext [] [''ksp'', ''sens'', ''out''] ex_fs) = Some c"
    by auto
  have d: "rc_dims c = ex_dims 2 2 1"
    using main_recon_dims(2) [OF c] by simp
  from minsize_clamped [OF p u c] obtain minsize where
      "l1op_obj (rc_conf c) = Some (wavelet_create DIMS (ex_dims 1 2 1) FFT_FLAGS minsize False False)"
      "\<forall>i<3. minsize ! i = min (ex_dims 1 2 1 ! i) 16"
      "\<forall>i. 3 \<le> i \<and> i < DIMS \<longrightarrow> minsize ! i = 1"
    by (auto simp: d)
  then have "l1op_obj (rc_conf c) = Some (wavelet_create DIMS (ex_dims 1 2 1) FFT_FLAGS minsize False False)
      \<and> minsize ! 0 = min 2 16 \<and> minsize ! 2 = min 1 16 \<and> minsize ! 7 = 1"
    by (simp add: DIMS_def)
  then show ?thesis using p r c by auto
qed

subsection \<open>C8: the truth image and the result\<close>

text \<open>
  C8.  The claim is that two runs which differ only in whether a truth image is
  supplied give the same output image.  The driver copies the name of the truth image
  into a buffer of 100 bytes without looking at its length.  With a truth image whose
  name has 150 characters the copy overruns the buffer on the stack, on which the
  configuration lies too, and the run is undefined from there on: it has not called the
  solver and has created no output.  The same inputs without \<^verbatim>\<open>-F\<close> run through and
  write the output.  (With names that fit, the truth image reaches nothing but a
  message and the last argument of the call of the solver: that is
  \<open>truth_noninterference_short_names\<close> above.)
\<close>

theorem truth_name_overrun:
  "load_cfl ex_fs_long ex_long DIMS = Some \<lparr>cfl_dims = ex_dims 1 1 1, cfl_data = (\<lambda>idx. 9)\<rparr>
   \<and> length ex_long = 150
   \<and> oc_term (main ex_ext [(CHR ''F'', ex_long)] [''ksp'', ''sens'', ''out''] ex_fs_long)
       = Undefined_behaviour
   \<and> oc_recon (main ex_ext [(CHR ''F'', ex_long)] [''ksp'', ''sens'', ''out''] ex_fs_long) = None
   \<and> oc_fs (main ex_ext [(CHR ''F'', ex_long)] [''ksp'', ''sens'', ''out''] ex_fs_long) ''out'' = None
   \<and> oc_term (main ex_ext [] [''ksp'', ''sens'', ''out''] ex_fs_long) = Exited 0
   \<and> oc_recon (main ex_ext [] [''ksp'', ''sens'', ''out''] ex_fs_long) \<noteq> None
   \<and> oc_fs (main ex_ext [] [''ksp'', ''sens'', ''out''] ex_fs_long) ''out'' \<noteq> None"
proof -
  note l = ex_long_length
  have t: "load_cfl ex_fs_long ex_long DIMS
      = Some \<lparr>cfl_dims = ex_dims 1 1 1, cfl_data = (\<lambda>idx. 9)\<rparr>"
    by (simp add: ex_fs_long_def load_cfl_def)
  have o: "ex_fs_long ''out'' = None"
    by (simp add: ex_fs_long_def ex_fs_def ex_long_neq)
  have g: "getopt_loop ex_ext [(CHR ''F'', ex_long)] (init_locals ex_ext)
      = Inl (Undefined_behaviour, [], (init_locals ex_ext)\<lparr>im_truth := True\<rparr>)"
    by (simp add: opt_case_def l)
  have f: "oc_term (main ex_ext [(CHR ''F'', ex_long)] [''ksp'', ''sens'', ''out''] ex_fs_long)
             = Undefined_behaviour"
      "oc_recon (main ex_ext [(CHR ''F'', ex_long)] [''ksp'', ''sens'', ''out''] ex_fs_long) = None"
      "oc_fs (main ex_ext [(CHR ''F'', ex_long)] [''ksp'', ''sens'', ''out''] ex_fs_long) ''out'' = None"
    unfolding main_def g by (simp_all add: stop_def o)
  have k: "load_cfl ex_fs_long ([''ksp'', ''sens'', ''out''] ! 0) DIMS
       = Some \<lparr>cfl_dims = ex_dims 2 1 1, cfl_data = (\<lambda>idx. if idx ! 0 = 0 then 4 else 0)\<rparr>"
    and s: "load_cfl ex_fs_long ([''ksp'', ''sens'', ''out''] ! 1) DIMS
       = Some \<lparr>cfl_dims = ex_dims 2 2 1, cfl_data = (\<lambda>idx. 1)\<rparr>"
    by (simp_all add: ex_fs_long_def load_cfl_other ex_long_neq)
  have r: "oc_recon (main ex_ext [] [''ksp'', ''sens'', ''out''] ex_fs_long) \<noteq> None"
    by (rule main_progress [OF ex_parse(1) _ k s]) (simp_all add: dims_mismatch_iff)
  then obtain c where c: "oc_recon (main ex_ext [] [''ksp'', ''sens'', ''out''] ex_fs_long) = Some c"
    by auto
  have "operators_fit c"
    by (simp add: operators_fit_def main_recon_dims(1) [OF c k] main_recon_dims(2,3) [OF c s])
  then have e: "oc_term (main ex_ext [] [''ksp'', ''sens'', ''out''] ex_fs_long) = Exited 0"
    using main_success_fs(2) [OF c s] by simp
  have w: "oc_fs (main ex_ext [] [''ksp'', ''sens'', ''out''] ex_fs_long) ''out'' \<noteq> None"
    using main_success_fs(1) [OF c s] by simp
  from l t f e r w show ?thesis by blast
qed

subsection \<open>C9: the configuration after the option loop\<close>

text \<open>
  C9.  Once the option loop has finished, the weight of the L2 term, the tolerance, the
  penalty, the iteration budget and the real-value flag keep their values to the end of
  the run, however it ends: the configuration at the end is the parsed one except
  possibly for the field that records the sparsity operator, and the solver is given
  that configuration.
\<close>

theorem conf_frame:
  assumes "getopt_loop ext opts (init_locals ext) = Inr ps"
  shows "lambda (oc_conf (main ext opts args fs)) = lambda (conf ps)
       \<and> eps (oc_conf (main ext opts args fs)) = eps (conf ps)
       \<and> rho (iconf (oc_conf (main ext opts args fs))) = rho (iconf (conf ps))
       \<and> maxiter (iconf (oc_conf (main ext opts args fs))) = maxiter (iconf (conf ps))
       \<and> rvc (oc_conf (main ext opts args fs)) = rvc (conf ps)
       \<and> oc_conf (main ext opts args fs)
           = (conf ps)\<lparr>l1op_obj := l1op_obj (oc_conf (main ext opts args fs))\<rparr>
       \<and> (\<forall>c. oc_recon (main ext opts args fs) = Some c \<longrightarrow> rc_conf c = oc_conf (main ext opts args fs))"
proof -
  have m: "main ext opts args fs = run ext ps args fs"
    using assms by (rule main_parsed)
  have e: "oc_conf (main ext opts args fs)
           = (conf ps)\<lparr>l1op_obj := l1op_obj (oc_conf (main ext opts args fs))\<rparr>"
    unfolding m by (rule run_conf)
  have "lambda (oc_conf (main ext opts args fs)) = lambda (conf ps)"
       "eps (oc_conf (main ext opts args fs)) = eps (conf ps)"
       "rho (iconf (oc_conf (main ext opts args fs))) = rho (iconf (conf ps))"
       "maxiter (iconf (oc_conf (main ext opts args fs))) = maxiter (iconf (conf ps))"
       "rvc (oc_conf (main ext opts args fs)) = rvc (conf ps)"
    by (subst e, simp)+
  moreover have "\<forall>c. oc_recon (main ext opts args fs) = Some c \<longrightarrow> rc_conf c = oc_conf (main ext opts args fs)"
    unfolding m by (simp add: run_recon_conf)
  ultimately show ?thesis using e by simp
qed

theorem conf_frame_witness:
  "getopt_loop ex_ext [(CHR ''r'', ''0.5''), (CHR ''c'', [])] (init_locals ex_ext)
     = Inr ((init_locals ex_ext)\<lparr>conf := (conf (init_locals ex_ext))\<lparr>lambda := 1 / 2, rvc := True\<rparr>\<rparr>)
   \<and> lambda (oc_conf (main ex_ext [(CHR ''r'', ''0.5''), (CHR ''c'', [])] [''ksp'', ''sens'', ''out''] ex_fs)) = 1 / 2
   \<and> eps (oc_conf (main ex_ext [(CHR ''r'', ''0.5''), (CHR ''c'', [])] [''ksp'', ''sens'', ''out''] ex_fs)) = 0
   \<and> rho (iconf (oc_conf (main ex_ext [(CHR ''r'', ''0.5''), (CHR ''c'', [])] [''ksp'', ''sens'', ''out''] ex_fs))) = 10
   \<and> maxiter (iconf (oc_conf (main ex_ext [(CHR ''r'', ''0.5''), (CHR ''c'', [])] [''ksp'', ''sens'', ''out''] ex_fs))) = 30
   \<and> rvc (oc_conf (main ex_ext [(CHR ''r'', ''0.5''), (CHR ''c'', [])] [''ksp'', ''sens'', ''out''] ex_fs))
   \<and> oc_recon (main ex_ext [(CHR ''r'', ''0.5''), (CHR ''c'', [])] [''ksp'', ''sens'', ''out''] ex_fs) \<noteq> None
   \<and> map_option (lambda \<circ> rc_conf)
        (oc_recon (main ex_ext [(CHR ''r'', ''0.5''), (CHR ''c'', [])] [''ksp'', ''sens'', ''out''] ex_fs))
       = Some (1 / 2)"
proof -
  note p = ex_parse(6)
  have r: "oc_recon (main ex_ext [(CHR ''r'', ''0.5''), (CHR ''c'', [])] [''ksp'', ''sens'', ''out''] ex_fs) \<noteq> None"
    by (rule ex_recon [OF p]) simp_all
  then obtain c where c: "oc_recon (main ex_ext [(CHR ''r'', ''0.5''), (CHR ''c'', [])] [''ksp'', ''sens'', ''out''] ex_fs) = Some c"
    by auto
  from conf_frame [OF p, of "[''ksp'', ''sens'', ''out'']" ex_fs] show ?thesis
    using p r by (simp add: c)
qed

subsection \<open>C10: the shape check looks at four axes only\<close>




end
